theory Spec2Isabelle
  imports Complex_Main "HOL-Library.AList"
begin

section \<open>Python values\<close>

text \<open>
  A Python \<open>str\<close> is modelled as an Isabelle \<open>string\<close> whose characters are the code
  points 0 to 255; Python's unbounded \<open>int\<close> is \<open>int\<close>; \<open>None\<close> is \<open>None\<close> of an option
  type. A \<open>float\<close> is read as the real number it stands for. Two operations on floats give a
  result that depends on the binary representation: the quotient of two integers scaled to
  a percentage and \<open>round\<close>. They are the fields of a record that the reporter takes as an
  argument, so that nothing proved below depends on how they round. An exception is a value
  of \<open>py_exception\<close>, and a function that can raise returns a sum whose left side is the
  exception.
\<close>

datatype py_exception = ValueError | AttributeError | CRSError | WriteError

definition py_lower_char :: "char \<Rightarrow> char" where
  \<comment> \<open>\<open>str.lower\<close> on one code point below 256: A to Z and the Latin-1 capitals.\<close>
  "py_lower_char c = (let n = (of_char c :: nat) in
     if (65 \<le> n \<and> n \<le> 90) \<or> (192 \<le> n \<and> n \<le> 222 \<and> n \<noteq> 215)
     then char_of (n + 32) else c)"

definition py_lower :: "string \<Rightarrow> string" where
  "py_lower s = map py_lower_char s"

definition py_isspace :: "char \<Rightarrow> bool" where
  \<comment> \<open>The code points below 256 that \<open>str.strip()\<close> removes.\<close>
  "py_isspace c = (let n = (of_char c :: nat) in
     (9 \<le> n \<and> n \<le> 13) \<or> (28 \<le> n \<and> n \<le> 32) \<or> n = 133 \<or> n = 160)"

definition py_strip_with :: "(char \<Rightarrow> bool) \<Rightarrow> string \<Rightarrow> string" where
  "py_strip_with p s = rev (dropWhile p (rev (dropWhile p s)))"

definition py_strip :: "string \<Rightarrow> string" where
  \<comment> \<open>\<open>s.strip()\<close>\<close>
  "py_strip s = py_strip_with py_isspace s"

definition py_strip_chars :: "string \<Rightarrow> string \<Rightarrow> string" where
  \<comment> \<open>\<open>s.strip(chars)\<close>\<close>
  "py_strip_chars chars s = py_strip_with (\<lambda>c. c \<in> set chars) s"

fun py_in :: "string \<Rightarrow> string \<Rightarrow> bool" where
  \<comment> \<open>\<open>sub in s\<close> on strings: \<open>sub\<close> occurs in \<open>s\<close> as a contiguous run.\<close>
  "py_in sub [] = (sub = [])"
| "py_in sub (c # cs) = (take (length sub) (c # cs) = sub \<or> py_in sub cs)"

fun nat_digits :: "nat \<Rightarrow> nat \<Rightarrow> string" where
  \<comment> \<open>The decimal digits of a number, most significant first; the first argument bounds the
      number of digits.\<close>
  "nat_digits 0 n = []"
| "nat_digits (Suc k) n =
     (if n < 10 then [char_of (48 + n)]
      else nat_digits k (n div 10) @ [char_of (48 + n mod 10)])"

definition py_str_nat :: "nat \<Rightarrow> string" where
  \<comment> \<open>\<open>str(n)\<close> for a natural number: a number has at most \<open>n + 1\<close> digits.\<close>
  "py_str_nat n = nat_digits (Suc n) n"

definition py_int :: "real \<Rightarrow> int" where
  \<comment> \<open>\<open>int(x)\<close> on a float: truncation towards zero.\<close>
  "py_int x = (if 0 \<le> x then \<lfloor>x\<rfloor> else \<lceil>x\<rceil>)"

definition round_half_even :: "real \<Rightarrow> int" where
  "round_half_even x =
     (let f = \<lfloor>x\<rfloor>; d = x - of_int f
      in if d < 1 / 2 then f else if 1 / 2 < d then f + 1 else if even f then f else f + 1)"

record float_ops =
  float_percent :: "int \<Rightarrow> int \<Rightarrow> real"
  float_round :: "real \<Rightarrow> nat \<Rightarrow> real"

text \<open>
  \<open>float_percent fl a b\<close> is \<open>a / b * 100\<close> and \<open>float_round fl x n\<close> is \<open>round(x, n)\<close>, as
  the machine computes them. The decimal reading below is one instance: it agrees with the
  machine where the quotient and the rounded number are floats, as for 3 out of 6 (50.0),
  and can differ from it in the last digit elsewhere (23 out of 80 is 28.75, which the
  machine holds as 28.749999999999996 and rounds to 28.7).
\<close>

definition decimal_round :: "real \<Rightarrow> nat \<Rightarrow> real" where
  \<comment> \<open>To the nearest multiple of \<open>10\<^sup>-\<^sup>n\<close>, halves to the even neighbour.\<close>
  "decimal_round x n = of_int (round_half_even (x * 10 ^ n)) / 10 ^ n"

definition decimal_floats :: float_ops where
  "decimal_floats =
     \<lparr> float_percent = (\<lambda>a b. real_of_int a / real_of_int b * 100),
       float_round = decimal_round \<rparr>"

definition truthy :: "int option \<Rightarrow> bool" where
  \<comment> \<open>The truth value of an \<open>Optional[int]\<close>: neither \<open>None\<close> nor 0.\<close>
  "truthy v = (case v of None \<Rightarrow> False | Some n \<Rightarrow> n \<noteq> 0)"


section \<open>Data frames\<close>

text \<open>
  The geometry library (shapely) is not part of the repository. Its functions are the
  fields of a record that the operations on geometries take as their first argument;
  \<open>make_valid\<close> returns \<open>None\<close> where the library raises.
\<close>

record 'g shapely =
  is_valid :: "'g \<Rightarrow> bool"
  is_empty :: "'g \<Rightarrow> bool"
  make_valid :: "'g \<Rightarrow> 'g option"
  explain_validity :: "'g \<Rightarrow> string"

datatype crs = EPSG int | OtherCRS string

text \<open>
  The projection library (pyproj) is not part of the repository either: \<open>known_epsg n\<close>
  tells whether its registry has a CRS for the code \<open>n\<close> (building a CRS from another code
  raises \<open>CRSError\<close>), and \<open>transform_geom a b\<close> carries a geometry from the CRS \<open>a\<close> to the
  CRS \<open>b\<close>.
\<close>

record 'g pyproj =
  known_epsg :: "int \<Rightarrow> bool"
  transform_geom :: "crs \<Rightarrow> crs \<Rightarrow> 'g \<Rightarrow> 'g"

fun to_epsg :: "crs \<Rightarrow> int option" where
  \<comment> \<open>\<open>crs.to_epsg()\<close>: \<open>EPSG n\<close> stands for a CRS that pyproj identifies as EPSG:n,
      \<open>OtherCRS wkt\<close> for one that it does not identify.\<close>
  "to_epsg (EPSG n) = Some n"
| "to_epsg (OtherCRS w) = None"

text \<open>
  A \<open>GeoDataFrame\<close> is modelled by its column labels in order (the geometry column is
  labelled \<open>geometry\<close>), its geometry column (one entry per row, \<open>None\<close> for a missing
  geometry) and its CRS. Attribute cell values are not part of the model.
\<close>

record 'g gdf =
  columns :: "string list"
  geometry :: "'g option list"
  crs :: "crs option"

definition len_gdf :: "'g gdf \<Rightarrow> int" where
  \<comment> \<open>\<open>len(gdf)\<close>: the number of rows.\<close>
  "len_gdf f = int (length (geometry f))"

definition gdf_empty :: "'g gdf \<Rightarrow> bool" where
  \<comment> \<open>\<open>gdf.empty\<close>: an axis of length 0. A frame has its geometry column, so it is the row
      axis that can be empty.\<close>
  "gdf_empty f = (geometry f = [])"

definition set_crs :: "'g pyproj \<Rightarrow> 'g gdf \<Rightarrow> int \<Rightarrow> py_exception + 'g gdf" where
  \<comment> \<open>\<open>gdf.set_crs(epsg=n, allow_override=True)\<close>: a new frame with the CRS replaced and
      the coordinates as they are.\<close>
  "set_crs pj f n =
     (if known_epsg pj n then Inr (f \<lparr> crs := Some (EPSG n) \<rparr>) else Inl CRSError)"

definition to_crs :: "'g pyproj \<Rightarrow> 'g gdf \<Rightarrow> int \<Rightarrow> py_exception + 'g gdf" where
  \<comment> \<open>\<open>gdf.to_crs(epsg=n)\<close>: a new frame with every geometry transformed; a frame without
      CRS cannot be transformed.\<close>
  "to_crs pj f n =
     (case crs f of
        None \<Rightarrow> Inl ValueError
      | Some c \<Rightarrow>
          if known_epsg pj n
          then Inr (f \<lparr> geometry := map (map_option (transform_geom pj c (EPSG n))) (geometry f),
                       crs := Some (EPSG n) \<rparr>)
          else Inl CRSError)"


section \<open>Geometry cleaner\<close>

record clean_stats =
  total_input :: int
  null_geometry :: int
  invalid_before :: int
  fixed :: int
  unfixable :: int
  empty_after_fix :: int
  duplicates_removed :: int
  total_output :: int
  error_details :: "(int \<times> string) list"

definition fix_geometry :: "'g shapely \<Rightarrow> 'g option \<Rightarrow> 'g option" where
  "fix_geometry sh geom =
     (case geom of
        None \<Rightarrow> None
      | Some g \<Rightarrow>
          if is_empty sh g then None
          else if is_valid sh g then Some g
          else (case make_valid sh g of
                  None \<Rightarrow> None
                | Some fx \<Rightarrow> if \<not> is_empty sh fx then Some fx else None))"

fun drop_duplicates_from :: "'a list \<Rightarrow> 'a list \<Rightarrow> 'a list" where
  \<comment> \<open>The rows kept by \<open>drop_duplicates\<close> (the first of equal rows wins), given the rows
      already kept.\<close>
  "drop_duplicates_from kept [] = []"
| "drop_duplicates_from kept (x # xs) =
     (if x \<in> set kept then drop_duplicates_from kept xs
      else x # drop_duplicates_from (x # kept) xs)"

definition drop_duplicates :: "'a list \<Rightarrow> 'a list" where
  "drop_duplicates xs = drop_duplicates_from [] xs"

definition is_na_or_empty :: "'g shapely \<Rightarrow> 'g option \<Rightarrow> bool" where
  \<comment> \<open>One entry of \<open>gdf.geometry.isna() | gdf.geometry.apply(is_empty)\<close>.\<close>
  "is_na_or_empty sh geom = (case geom of None \<Rightarrow> True | Some g \<Rightarrow> is_empty sh g)"

definition notna_rows :: "'g option list \<Rightarrow> (nat \<times> 'g) list" where
  \<comment> \<open>The rows of \<open>gdf[~null_mask]\<close>, each with the index label that reading gave it, its
      position in the input.\<close>
  "notna_rows geoms =
     concat (map (\<lambda>(i, go). case go of None \<Rightarrow> [] | Some g \<Rightarrow> [(i, g)])
                 (zip [0 ..< length geoms] geoms))"

definition clean :: "'g shapely \<Rightarrow> 'g gdf \<Rightarrow> 'g gdf \<times> clean_stats" where
  \<comment> \<open>\<open>GeometryCleaner.clean\<close>\<close>
  "clean sh gdf0 =
     (let stats0 = \<lparr> total_input = len_gdf gdf0, null_geometry = 0, invalid_before = 0,
                     fixed = 0, unfixable = 0, empty_after_fix = 0, duplicates_removed = 0,
                     total_output = 0, error_details = [] \<rparr>;
          stats1 = stats0 \<lparr> null_geometry :=
                     int (length (filter (\<lambda>g. g = None) (geometry gdf0))) \<rparr>;
          rows1 = notna_rows (geometry gdf0);
          gdf1 = gdf0 \<lparr> geometry := map (\<lambda>(i, g). Some g) rows1 \<rparr>
      in if gdf_empty gdf1 then (gdf1, stats1 \<lparr> total_output := 0 \<rparr>)
         else
           let invalid = filter (\<lambda>(i, g). \<not> is_valid sh g) rows1;
               stats2 = stats1 \<lparr> invalid_before := int (length invalid) \<rparr>;
               stats3 = stats2 \<lparr> error_details :=
                          map (\<lambda>(i, g). (int i, explain_validity sh g)) (take 10 invalid) \<rparr>;
               geoms2 = map (\<lambda>(i, g). fix_geometry sh (Some g)) rows1;
               stats4 = stats3 \<lparr> empty_after_fix :=
                          int (length (filter (is_na_or_empty sh) geoms2)) \<rparr>;
               stats5 = stats4 \<lparr> unfixable := empty_after_fix stats4 \<rparr>;
               stats6 = stats5 \<lparr> fixed := invalid_before stats5 - unfixable stats5 \<rparr>;
               geoms3 = filter (\<lambda>g. \<not> is_na_or_empty sh g) geoms2;
               before_dedup = int (length geoms3);
               geoms4 = drop_duplicates geoms3;
               stats7 = stats6 \<lparr> duplicates_removed := before_dedup - int (length geoms4) \<rparr>;
               gdf4 = gdf1 \<lparr> geometry := geoms4 \<rparr>
           in (gdf4, stats7 \<lparr> total_output := len_gdf gdf4 \<rparr>))"

text \<open>A small geometry library on which the operations can be run.\<close>

datatype sample_geometry = EmptyPolygon | UnitSquare | Bowtie | TwoTriangles | Spike

definition sample_shapely :: "sample_geometry shapely" where
  \<comment> \<open>An empty polygon is valid; a bowtie is repaired into two triangles; the repair of a
      spike of zero area is empty.\<close>
  "sample_shapely =
     \<lparr> is_valid = (\<lambda>g. g \<noteq> Bowtie \<and> g \<noteq> Spike),
       is_empty = (\<lambda>g. g = EmptyPolygon),
       make_valid = (\<lambda>g. if g = Bowtie then Some TwoTriangles
                          else if g = Spike then Some EmptyPolygon else Some g),
       explain_validity = (\<lambda>g. if g = Bowtie then ''Self-intersection''
                                else if g = Spike then ''Too few points in geometry component''
                                else ''Valid Geometry'') \<rparr>"


definition empty_rows :: "'g shapely \<Rightarrow> 'g option list \<Rightarrow> 'g option list" where
  \<comment> \<open>The rows whose geometry is present and empty.\<close>
  "empty_rows sh geoms =
     filter (\<lambda>go. case go of None \<Rightarrow> False | Some g \<Rightarrow> is_empty sh g) geoms"

definition sample_gdf :: "sample_geometry gdf" where
  "sample_gdf =
     \<lparr> columns = [''nom'', ''geometry''],
       geometry = [None, Some UnitSquare, Some EmptyPolygon, Some Bowtie, Some UnitSquare,
                   Some Spike],
       crs = None \<rparr>"

definition one_empty_gdf :: "sample_geometry gdf" where
  "one_empty_gdf = \<lparr> columns = [''geometry''], geometry = [Some EmptyPolygon], crs = None \<rparr>"


section \<open>Attribute normalizer\<close>

definition GHOST_COLUMNS :: "string list" where
  "GHOST_COLUMNS = [''fid'', ''objectid'', ''shape_area'', ''shape_length'', ''shape_leng'']"

definition encode_ascii_ignore :: "string \<Rightarrow> string" where
  \<comment> \<open>\<open>s.encode("ascii", "ignore").decode()\<close>: the code points below 128.\<close>
  "encode_ascii_ignore s = filter (\<lambda>c. (of_char c :: nat) < 128) s"

definition is_word_char :: "char \<Rightarrow> bool" where
  \<comment> \<open>The class \<open>[a-zA-Z0-9_]\<close>.\<close>
  "is_word_char c = (let n = (of_char c :: nat) in
     (97 \<le> n \<and> n \<le> 122) \<or> (65 \<le> n \<and> n \<le> 90) \<or> (48 \<le> n \<and> n \<le> 57) \<or> n = 95)"

definition py_isdigit :: "char \<Rightarrow> bool" where
  \<comment> \<open>\<open>c.isdigit()\<close> on an ASCII character.\<close>
  "py_isdigit c = (let n = (of_char c :: nat) in 48 \<le> n \<and> n \<le> 57)"

fun collapse_underscores :: "string \<Rightarrow> string" where
  \<comment> \<open>\<open>re.sub(r"_+", "_", name)\<close>\<close>
  "collapse_underscores (a # b # cs) =
     (if a = CHR ''_'' \<and> b = CHR ''_'' then collapse_underscores (b # cs)
      else a # collapse_underscores (b # cs))"
| "collapse_underscores cs = cs"

definition clean_column_name :: "(string \<Rightarrow> string) \<Rightarrow> string \<Rightarrow> string \<Rightarrow> string" where
  \<comment> \<open>\<open>AttributeNormalizer._clean_column_name\<close>. The first argument is
      \<open>unicodedata.normalize("NFKD", _)\<close>, which is the identity on ASCII names.\<close>
  "clean_column_name nfkd name0 target_format =
     (let name1 = encode_ascii_ignore (nfkd name0);
          name2 = map (\<lambda>c. if is_word_char c then c else CHR ''_'') (py_strip (py_lower name1));
          name3 = py_strip_chars ''_'' (collapse_underscores name2);
          name4 = (case name3 of
                     [] \<Rightarrow> name3
                   | c # cs \<Rightarrow> if py_isdigit c then ''col_'' @ name3 else name3);
          name5 = (if target_format = ''ESRI Shapefile'' then take 10 name4 else name4)
      in if name5 = [] then ''col'' else name5)"

fun build_rename_map ::
  "(string \<Rightarrow> string) \<Rightarrow> string \<Rightarrow> string list \<Rightarrow> (string \<times> string) list
     \<Rightarrow> (string \<times> string) list" where
  \<comment> \<open>The first loop of \<open>normalize\<close>; a dict is an association list in insertion order.\<close>
  "build_rename_map nfkd target_format [] rename_map = rename_map"
| "build_rename_map nfkd target_format (col # cols) rename_map =
     (if col = ''geometry'' then build_rename_map nfkd target_format cols rename_map
      else
        let cleaned = clean_column_name nfkd col target_format
        in if cleaned \<noteq> col
           then build_rename_map nfkd target_format cols (AList.update col cleaned rename_map)
           else build_rename_map nfkd target_format cols rename_map)"

fun dedup_renames ::
  "(string \<times> string) list \<Rightarrow> (string \<times> nat) list \<Rightarrow> (string \<times> string) list
     \<Rightarrow> (string \<times> string) list" where
  \<comment> \<open>The second loop of \<open>normalize\<close>, over \<open>rename_map.items()\<close>, with the dicts
      \<open>seen\<close> and \<open>final_rename\<close>.\<close>
  "dedup_renames [] seen final_rename = final_rename"
| "dedup_renames ((old, new) # items) seen final_rename =
     (case map_of seen new of
        Some k \<Rightarrow>
          dedup_renames items (AList.update new (k + 1) seen)
            (AList.update old (new @ ''_'' @ py_str_nat (k + 1)) final_rename)
      | None \<Rightarrow>
          dedup_renames items (AList.update new 0 seen) (AList.update old new final_rename))"

definition rename_columns :: "(string \<times> string) list \<Rightarrow> string list \<Rightarrow> string list" where
  \<comment> \<open>The labels after \<open>gdf.rename(columns=mapping)\<close>.\<close>
  "rename_columns mapping cols =
     map (\<lambda>c. case map_of mapping c of Some n \<Rightarrow> n | None \<Rightarrow> c) cols"

record normalize_stats =
  columns_renamed :: "(string \<times> string) list"
  columns_dropped :: "string list"

definition repeated_label :: "string list \<Rightarrow> bool" where
  \<comment> \<open>Some label other than \<open>geometry\<close> occurs twice.\<close>
  "repeated_label cols = (\<not> distinct (filter (\<lambda>c. c \<noteq> ''geometry'') cols))"

definition attribute_normalize ::
  "(string \<Rightarrow> string) \<Rightarrow> 'g gdf \<Rightarrow> string \<Rightarrow> bool
     \<Rightarrow> py_exception + 'g gdf \<times> normalize_stats" where
  \<comment> \<open>\<open>AttributeNormalizer.normalize\<close>, on the labels. Steps 3 to 5 of the source convert
      and clean cell values and leave the labels as step 2 has them, so the cell values and
      the two statistics that count them are not part of the model. Step 3 reads
      \<open>gdf[col].dtype\<close> for every label but \<open>geometry\<close>: when the label occurs twice,
      \<open>gdf[col]\<close> is a frame, which has no \<open>dtype\<close>, and the call raises.\<close>
  "attribute_normalize nfkd gdf0 target_format drop_ghost_cols =
     (let stats0 = \<lparr> columns_renamed = [], columns_dropped = [] \<rparr>;
          rename_map = build_rename_map nfkd target_format (columns gdf0) [];
          final_rename = dedup_renames rename_map [] [];
          gdf1 = (if final_rename \<noteq> []
                  then gdf0 \<lparr> columns := rename_columns final_rename (columns gdf0) \<rparr>
                  else gdf0);
          stats1 = (if final_rename \<noteq> []
                    then stats0 \<lparr> columns_renamed := final_rename \<rparr> else stats0);
          cols_to_drop = (if drop_ghost_cols
                          then filter (\<lambda>c. py_lower c \<in> set GHOST_COLUMNS \<and> c \<noteq> ''geometry'')
                                 (columns gdf1)
                          else []);
          gdf2 = (if cols_to_drop \<noteq> []
                  then gdf1 \<lparr> columns := filter (\<lambda>c. c \<notin> set cols_to_drop) (columns gdf1) \<rparr>
                  else gdf1);
          stats2 = (if cols_to_drop \<noteq> []
                    then stats1 \<lparr> columns_dropped := cols_to_drop \<rparr> else stats1)
      in if repeated_label (columns gdf2) then Inl AttributeError else Inr (gdf2, stats2))"


section \<open>Projection detector\<close>

type_synonym bbox = "real \<times> real \<times> real \<times> real"

definition KNOWN_CRS_BBOXES :: "(int \<times> bbox) list" where
  \<comment> \<open>The dict, in insertion order; each box is (minx, miny, maxx, maxy).\<close>
  "KNOWN_CRS_BBOXES =
     [(4326, (-180, -90, 180, 90)),
      (2154, (99220, 6049997, 1242456, 7110480)),
      (3857, (-20037508, -20048966, 20037508, 20048966)),
      (4171, (-514 / 100, 4133 / 100, 956 / 100, 5109 / 100)),
      (32631, (166022, 0, 833978, 9329005)),
      (32632, (166022, 0, 833978, 9329005)),
      (27700, (-103976, -16703, 652897, 1199848)),
      (25831, (119303, 1116915, 1320416, 9554469)),
      (25832, (243900, 1116915, 1783532, 9554469))]"

datatype extent_sample = ReadError | EmptySample | Extent bbox

definition extent_step ::
  "bbox \<Rightarrow> int \<times> bbox \<Rightarrow> int option \<times> real option \<Rightarrow> int option \<times> real option" where
  \<comment> \<open>One iteration of the loop over the table, on \<open>(best_epsg, best_score)\<close>; the score
      \<open>None\<close> is \<open>float("inf")\<close>.\<close>
  "extent_step bounds item acc =
     (case (item, bounds, acc) of
        ((epsg, (b0, b1, b2, b3)), (m0, m1, m2, m3), (best_epsg, best_score)) \<Rightarrow>
          if b0 \<le> m0 \<and> m0 \<le> b2 \<and> b1 \<le> m1 \<and> m1 \<le> b3
             \<and> b0 \<le> m2 \<and> m2 \<le> b2 \<and> b1 \<le> m3 \<and> m3 \<le> b3
          then
            let bbox_area = (b2 - b0) * (b3 - b1)
            in if (case best_score of None \<Rightarrow> True | Some sc \<Rightarrow> bbox_area < sc)
               then (Some epsg, Some bbox_area)
               else (best_epsg, best_score)
          else (best_epsg, best_score))"

fun extent_loop ::
  "(int \<times> bbox) list \<Rightarrow> bbox \<Rightarrow> int option \<times> real option \<Rightarrow> int option \<times> real option" where
  "extent_loop [] bounds acc = acc"
| "extent_loop (item # items) bounds acc = extent_loop items bounds (extent_step bounds item acc)"

definition detect_from_extent :: "extent_sample \<Rightarrow> int option \<times> string" where
  \<comment> \<open>\<open>ProjectionDetector._detect_from_extent\<close>. The argument is what reading the first
      100 rows gives: an exception, a frame without rows, or the total bounds.\<close>
  "detect_from_extent sample =
     (case sample of
        ReadError \<Rightarrow> (None, ''low'')
      | EmptySample \<Rightarrow> (None, ''low'')
      | Extent bounds \<Rightarrow>
          let best_epsg = fst (extent_loop KNOWN_CRS_BBOXES bounds (None, None));
              confidence = (if truthy best_epsg then ''medium'' else ''low'')
          in (best_epsg, confidence))"

record detection =
  epsg :: "int option"
  wkt :: "string option"
  confidence :: string
  detect_method :: string

definition detect :: "int option \<Rightarrow> int option \<Rightarrow> extent_sample \<Rightarrow> detection" where
  \<comment> \<open>\<open>ProjectionDetector.detect\<close>, given what the driver metadata and the sidecar file
      yield.\<close>
  "detect ogr_epsg prj_epsg sample =
     (let result = \<lparr> epsg = None, wkt = None, confidence = ''low'', detect_method = ''none'' \<rparr>
      in if truthy ogr_epsg
         then result \<lparr> epsg := ogr_epsg, confidence := ''high'', detect_method := ''ogr_metadata'' \<rparr>
         else if truthy prj_epsg
         then result \<lparr> epsg := prj_epsg, confidence := ''high'', detect_method := ''prj_file'' \<rparr>
         else
           let (heuristic_epsg, conf) = detect_from_extent sample
           in if truthy heuristic_epsg
              then result \<lparr> epsg := heuristic_epsg, confidence := conf,
                            detect_method := ''extent_heuristic'' \<rparr>
              else result)"

definition reproject_geodataframe ::
  "'g pyproj \<Rightarrow> 'g gdf \<Rightarrow> int \<Rightarrow> int \<Rightarrow> py_exception + 'g gdf" where
  \<comment> \<open>\<open>ProjectionDetector.reproject_geodataframe\<close>\<close>
  "reproject_geodataframe pj gdf0 source_epsg target_epsg =
     (case (case crs gdf0 of
              None \<Rightarrow> set_crs pj gdf0 source_epsg
            | Some c \<Rightarrow>
                if to_epsg c \<noteq> Some source_epsg then set_crs pj gdf0 source_epsg
                else Inr gdf0) of
        Inl e \<Rightarrow> Inl e
      | Inr gdf1 \<Rightarrow> to_crs pj gdf1 target_epsg)"

text \<open>The two sides of the selection rule, in the words of the specification.\<close>

fun box_contains :: "bbox \<Rightarrow> bbox \<Rightarrow> bool" where
  \<comment> \<open>The first box contains the second.\<close>
  "box_contains (b0, b1, b2, b3) (m0, m1, m2, m3) = (b0 \<le> m0 \<and> m2 \<le> b2 \<and> b1 \<le> m1 \<and> m3 \<le> b3)"

fun box_area :: "bbox \<Rightarrow> real" where
  "box_area (b0, b1, b2, b3) = (b2 - b0) * (b3 - b1)"

fun well_formed_box :: "bbox \<Rightarrow> bool" where
  "well_formed_box (m0, m1, m2, m3) = (m0 \<le> m2 \<and> m1 \<le> m3)"

definition candidates :: "(int \<times> bbox) list \<Rightarrow> bbox \<Rightarrow> (int \<times> bbox) list" where
  "candidates table bounds = filter (\<lambda>(e, b). box_contains b bounds) table"

definition best_so_far ::
  "(int \<times> bbox) list \<Rightarrow> bbox \<Rightarrow> int option \<times> real option \<Rightarrow> bool" where
  \<comment> \<open>The loop invariant: what \<open>(best_epsg, best_score)\<close> is after the entries \<open>seen\<close>.\<close>
  "best_so_far seen bounds acc =
     (case acc of
        (None, None) \<Rightarrow> candidates seen bounds = []
      | (Some e, Some a) \<Rightarrow>
          (\<exists>b. (e, b) \<in> set (candidates seen bounds) \<and> a = box_area b)
          \<and> (\<forall>(e', b') \<in> set (candidates seen bounds). a \<le> box_area b')
      | _ \<Rightarrow> False)"


section \<open>Quality reporter\<close>

text \<open>
  A report is a record of its sections. A section is a Python dict; a key that one of the
  branches of the source leaves out is a field of option type. The time stamp, the
  processing time, the bounding box, the geometry kind, the estimated area and the
  per-column minimum, maximum and mean are not read by anything modelled here and are
  left out. What pandas reports about a column of attribute values (its dtype, the number
  of nulls, the number of distinct values) is an argument of the reporter.
\<close>

record series_info =
  series_dtype :: string
  series_isna_sum :: int
  series_nunique :: int

record col_stats =
  dtype :: string
  null_count :: int
  null_rate :: real
  unique_count :: int

record summary_section =
  features_input :: int
  features_output :: int
  features_lost :: int
  columns_input :: int
  columns_output :: int

record geometry_section =
  total :: "int option"
  valid_count :: int
  invalid_count :: int
  validity_rate :: real
  null_geometry_count :: "int option"
  empty_geometry_count :: "int option"
  duplicates_removed_count :: "int option"
  errors_found :: "int option"
  errors_fixed :: "int option"
  unfixable_count :: "int option"
  error_sample :: "(int \<times> string) list option"

record attribute_section =
  attribute_columns :: "(string \<times> col_stats) list"
  total_columns :: int
  completeness_rate :: real
  renamed :: "(string \<times> string) list"
  dropped :: "string list"

record projection_section =
  source_epsg :: "int option"
  target_epsg :: "int option"
  reprojected :: bool

datatype recommendation =
  NullGeometries real | LowValidity real | LowCompleteness real | ProjectionUnknown

record quality_report =
  summary :: summary_section
  geometry_quality :: geometry_section
  attribute_quality :: "attribute_section option"
  projection :: projection_section
  quality_score :: int
  quality_grade :: string
  recommendations :: "recommendation list"

definition build_summary :: "'g gdf \<Rightarrow> 'g gdf \<Rightarrow> summary_section" where
  \<comment> \<open>\<open>QualityReporter._build_summary\<close>\<close>
  "build_summary gdf_before gdf_after =
     \<lparr> features_input = len_gdf gdf_before,
       features_output = len_gdf gdf_after,
       features_lost = len_gdf gdf_before - len_gdf gdf_after,
       columns_input = int (length (columns gdf_before)) - 1,
       columns_output = int (length (columns gdf_after)) - 1 \<rparr>"

definition stats_get :: "clean_stats option \<Rightarrow> (clean_stats \<Rightarrow> 'a) \<Rightarrow> 'a \<Rightarrow> 'a" where
  \<comment> \<open>\<open>stats.get(key, default)\<close> on the statistics of the cleaner, which are the empty
      dict when the cleaner did not run.\<close>
  "stats_get stats field dflt = (case stats of None \<Rightarrow> dflt | Some st \<Rightarrow> field st)"

definition build_geometry_section ::
  "'g shapely \<Rightarrow> float_ops \<Rightarrow> 'g gdf \<Rightarrow> clean_stats option \<Rightarrow> geometry_section" where
  \<comment> \<open>\<open>QualityReporter._build_geometry_section\<close>; \<open>is_valid(None)\<close> is false.\<close>
  "build_geometry_section sh fl gdf stats =
     (if gdf_empty gdf
      then \<lparr> total = None, valid_count = 0, invalid_count = 0, validity_rate = 0,
             null_geometry_count = None, empty_geometry_count = None,
             duplicates_removed_count = None, errors_found = None, errors_fixed = None,
             unfixable_count = None, error_sample = None \<rparr>
      else
        let valid = int (length (filter (\<lambda>go. case go of None \<Rightarrow> False | Some g \<Rightarrow> is_valid sh g)
                                  (geometry gdf)));
            n = len_gdf gdf
        in \<lparr> total = Some n, valid_count = valid, invalid_count = n - valid,
             validity_rate = (if n \<noteq> 0 then float_round fl (float_percent fl valid n) 1
                              else 0),
             null_geometry_count = Some (stats_get stats null_geometry 0),
             empty_geometry_count = Some (stats_get stats empty_after_fix 0),
             duplicates_removed_count = Some (stats_get stats duplicates_removed 0),
             errors_found = Some (stats_get stats invalid_before 0),
             errors_fixed = Some (stats_get stats fixed 0),
             unfixable_count = Some (stats_get stats unfixable 0),
             error_sample = Some (take 5 (stats_get stats error_details [])) \<rparr>)"

definition build_attribute_section ::
  "float_ops \<Rightarrow> (string \<Rightarrow> series_info) \<Rightarrow> 'g gdf \<Rightarrow> normalize_stats option
     \<Rightarrow> attribute_section option" where
  \<comment> \<open>\<open>QualityReporter._build_attribute_section\<close>; the result \<open>None\<close> is the empty
      dict. Without columns the completeness is the integer 100, which \<open>round\<close> returns
      as it is.\<close>
  "build_attribute_section fl series gdf stats =
     (if gdf_empty gdf then None
      else
        let cols = filter (\<lambda>c. c \<noteq> ''geometry'') (columns gdf);
            col_stats = fold (\<lambda>col acc.
                AList.update col
                  \<lparr> dtype = series_dtype (series col),
                    null_count = series_isna_sum (series col),
                    null_rate = float_round fl
                                  (float_percent fl (series_isna_sum (series col)) (len_gdf gdf)) 1,
                    unique_count = series_nunique (series col) \<rparr> acc) cols [];
            completeness =
              (if cols \<noteq> []
               then float_percent fl (int (length (filter (\<lambda>(c, s). null_rate s < 5) col_stats)))
                      (int (length cols))
               else 100)
        in Some \<lparr> attribute_columns = col_stats,
                  total_columns = int (length cols),
                  completeness_rate = (if cols \<noteq> [] then float_round fl completeness 1
                                       else completeness),
                  renamed = (case stats of None \<Rightarrow> [] | Some st \<Rightarrow> columns_renamed st),
                  dropped = (case stats of None \<Rightarrow> [] | Some st \<Rightarrow> columns_dropped st) \<rparr>)"

definition build_projection_section :: "int option \<Rightarrow> int option \<Rightarrow> projection_section" where
  \<comment> \<open>\<open>QualityReporter._build_projection_section\<close>\<close>
  "build_projection_section src tgt =
     \<lparr> source_epsg = src, target_epsg = tgt,
       reprojected = (if truthy src \<and> truthy tgt then src \<noteq> tgt else False) \<rparr>"

definition compute_score ::
  "float_ops \<Rightarrow> quality_report \<Rightarrow> clean_stats option \<Rightarrow> int \<times> recommendation list" where
  \<comment> \<open>\<open>QualityReporter._compute_score\<close>. A recommendation is kept as its kind and the
      figure that its text quotes.\<close>
  "compute_score fl report geometry_stats =
     (let geom = geometry_quality report;
          null_rate = float_percent fl (case null_geometry_count geom of None \<Rightarrow> 0 | Some n \<Rightarrow> n)
                        (max (case total geom of None \<Rightarrow> 1 | Some n \<Rightarrow> n) 1);
          score1 = 0 + max 0 (25 - py_int (null_rate / 4));
          recs1 = (if 5 < null_rate then [NullGeometries null_rate] else []);
          validity = validity_rate geom;
          score2 = score1 + py_int (validity / 4);
          recs2 = (if validity < 95 then recs1 @ [LowValidity validity] else recs1);
          attr = attribute_quality report;
          completeness = (case attr of None \<Rightarrow> 100 | Some a \<Rightarrow> completeness_rate a);
          score3 = score2 + py_int (completeness / 5);
          recs3 = (if completeness < 80 then recs2 @ [LowCompleteness completeness] else recs2);
          proj = projection report;
          score4 = (if truthy (source_epsg proj) then score3 + 15 else score3 + 5);
          recs4 = (if truthy (source_epsg proj) then recs3 else recs3 @ [ProjectionUnknown]);
          type_score = fold (\<lambda>(c, s) t. if dtype s = ''object'' \<and> 50 < unique_count s
                                       then t - 2 else t)
                         (case attr of None \<Rightarrow> [] | Some a \<Rightarrow> attribute_columns a) (15 :: int);
          score5 = score4 + max 0 type_score
      in (min 100 (max 0 score5), recs4))"

definition score_to_grade :: "int \<Rightarrow> string" where
  \<comment> \<open>\<open>QualityReporter._score_to_grade\<close>\<close>
  "score_to_grade score =
     (if 90 \<le> score then ''A''
      else if 80 \<le> score then ''B''
      else if 70 \<le> score then ''C''
      else if 60 \<le> score then ''D''
      else ''F'')"

definition generate ::
  "'g shapely \<Rightarrow> float_ops \<Rightarrow> (string \<Rightarrow> series_info) \<Rightarrow> 'g gdf \<Rightarrow> 'g gdf
     \<Rightarrow> clean_stats option \<Rightarrow> normalize_stats option \<Rightarrow> int option \<Rightarrow> int option
     \<Rightarrow> quality_report" where
  \<comment> \<open>\<open>QualityReporter.generate\<close>\<close>
  "generate sh fl series gdf_before gdf_after geometry_stats attribute_stats src tgt =
     (let report = \<lparr> summary = build_summary gdf_before gdf_after,
                      geometry_quality = build_geometry_section sh fl gdf_after geometry_stats,
                      attribute_quality = build_attribute_section fl series gdf_after
                                            attribute_stats,
                      projection = build_projection_section src tgt,
                      quality_score = 0,
                      quality_grade = ''F'',
                      recommendations = [] \<rparr>;
          (score, recs) = compute_score fl report geometry_stats
      in report \<lparr> quality_score := score, quality_grade := score_to_grade score,
                  recommendations := recs \<rparr>)"

definition sample_series :: "string \<Rightarrow> series_info" where
  "sample_series col =
     (if col = ''nom''
      then \<lparr> series_dtype = ''object'', series_isna_sum = 0, series_nunique = 2 \<rparr>
      else \<lparr> series_dtype = ''float64'', series_isna_sum = 0, series_nunique = 2 \<rparr>)"


section \<open>Conversion orchestrator\<close>

text \<open>
  Frames are Python objects: a variable holds a reference, and an assignment to a column
  changes the object that every holder of the reference sees. The orchestrator is
  therefore modelled over a heap of frames. \<open>alloc\<close> stores a fresh object, as a call
  that returns a new frame (\<open>copy\<close>, \<open>clean\<close>, \<open>normalize\<close>, \<open>to_crs\<close>, \<open>set_crs\<close>) does.
\<close>

record 'g heap =
  cells :: "nat \<Rightarrow> 'g gdf"
  used :: nat

definition empty_heap :: "'g heap" where
  "empty_heap = \<lparr> cells = (\<lambda>r. \<lparr> columns = [], geometry = [], crs = None \<rparr>), used = 0 \<rparr>"

definition alloc :: "'g heap \<Rightarrow> 'g gdf \<Rightarrow> nat \<times> 'g heap" where
  "alloc h f = (used h, h \<lparr> cells := (cells h)(used h := f), used := Suc (used h) \<rparr>)"

definition set_column :: "string \<Rightarrow> 'g gdf \<Rightarrow> 'g gdf" where
  \<comment> \<open>The labels after \<open>gdf[label] = values\<close>: a new label goes last, an existing one
      keeps its place.\<close>
  "set_column label f =
     (if label \<in> set (columns f) then f else f \<lparr> columns := columns f @ [label] \<rparr>)"

record format_config =
  driver :: string
  ext :: string
  single_file :: bool

definition FORMAT_CONFIG :: "(string \<times> format_config) list" where
  "FORMAT_CONFIG =
     [(''GeoJSON'', \<lparr> driver = ''GeoJSON'', ext = ''.geojson'', single_file = True \<rparr>),
      (''ESRI Shapefile'', \<lparr> driver = ''ESRI Shapefile'', ext = ''.shp'', single_file = False \<rparr>),
      (''GPKG'', \<lparr> driver = ''GPKG'', ext = ''.gpkg'', single_file = True \<rparr>),
      (''KML'', \<lparr> driver = ''KML'', ext = ''.kml'', single_file = True \<rparr>),
      (''DXF'', \<lparr> driver = ''DXF'', ext = ''.dxf'', single_file = True \<rparr>),
      (''CSV'', \<lparr> driver = ''CSV'', ext = ''.csv'', single_file = True \<rparr>),
      (''OpenFileGDB'', \<lparr> driver = ''OpenFileGDB'', ext = ''.gdb'', single_file = False \<rparr>),
      (''FlatGeobuf'', \<lparr> driver = ''FlatGeobuf'', ext = ''.fgb'', single_file = True \<rparr>)]"

record write_kwargs =
  kw_driver :: "string option"
  kw_encoding :: string
  kw_engine :: "string option"

text \<open>
  What the orchestrator takes from outside the repository: the geometry library, the
  projection library, the arithmetic of floats, the Unicode decomposition, what pandas
  reports about a column of the frame handed to the reporter, whether writing a frame to a
  path succeeds (\<open>to_file\<close> raises when it does not), the temporary file name for a prefix
  and a suffix, and the time the run took.
\<close>

record 'g env =
  shapely_lib :: "'g shapely"
  pyproj_lib :: "'g pyproj"
  float_arith :: float_ops
  unicode_nfkd :: "string \<Rightarrow> string"
  pandas_series :: "string \<Rightarrow> series_info"
  to_file :: "'g gdf \<Rightarrow> string \<Rightarrow> write_kwargs \<Rightarrow> bool"
  mktemp :: "string \<Rightarrow> string \<Rightarrow> string"
  processing_time :: real

definition write_file ::
  "'g env \<Rightarrow> nat \<Rightarrow> string \<Rightarrow> string \<Rightarrow> 'g heap \<Rightarrow> (py_exception + string) \<times> 'g heap" where
  \<comment> \<open>\<open>GDALProcessor._write_file\<close>, on the frame that the reference \<open>gdf\<close> points to.\<close>
  "write_file env gdf output_format encoding h =
     (case map_of FORMAT_CONFIG output_format of
        None \<Rightarrow> (Inl ValueError, h)
      | Some config \<Rightarrow>
          let output_path = mktemp env ''geoconvert_out_'' (ext config);
              kwargs0 = \<lparr> kw_driver = Some (driver config), kw_encoding = encoding,
                          kw_engine = None \<rparr>;
              (kwargs, h') =
                (if output_format = ''KML'' then (kwargs0 \<lparr> kw_engine := Some ''fiona'' \<rparr>, h)
                 else if output_format = ''CSV''
                 then (kwargs0 \<lparr> kw_driver := None \<rparr>,
                       h \<lparr> cells := (cells h)
                            (gdf := set_column ''longitude'' (set_column ''latitude'' (cells h gdf))) \<rparr>)
                 else (kwargs0, h))
          in if to_file env (cells h' gdf) output_path kwargs
             then (Inr output_path, h') else (Inl WriteError, h'))"

function py_replace :: "string \<Rightarrow> string \<Rightarrow> string \<Rightarrow> string" where
  \<comment> \<open>\<open>s.replace(old, new)\<close> for a non-empty \<open>old\<close>.\<close>
  "py_replace old new [] = []"
| "py_replace old new (c # cs) =
     (if old \<noteq> [] \<and> take (length old) (c # cs) = old
      then new @ py_replace old new (drop (length old) (c # cs))
      else c # py_replace old new cs)"
  by pat_completeness auto
termination
  by (relation "measure (\<lambda>(old, new, s). length s)") auto

definition package_if_needed :: "string \<Rightarrow> string \<Rightarrow> string" where
  \<comment> \<open>\<open>GDALProcessor._package_if_needed\<close>: the path it returns; the archive it writes is
      on disk.\<close>
  "package_if_needed output_path output_format =
     (case map_of FORMAT_CONFIG output_format of
        None \<Rightarrow> output_path
      | Some config \<Rightarrow>
          if single_file config then output_path
          else py_replace (ext config) ''.zip'' output_path)"

definition reprojection_stage ::
  "'g env \<Rightarrow> 'g gdf \<Rightarrow> int option \<Rightarrow> int option \<Rightarrow> py_exception + 'g gdf \<times> int option" where
  \<comment> \<open>Stage 6 of \<open>GDALProcessor.process\<close>: the frame after the stage and
      \<open>effective_target_epsg\<close>.\<close>
  "reprojection_stage env gdf src tgt =
     (if truthy tgt \<and> truthy src \<and> tgt \<noteq> src
      then (case (src, tgt) of
              (Some s, Some t) \<Rightarrow>
                (case reproject_geodataframe (pyproj_lib env) gdf s t of
                   Inl e \<Rightarrow> Inl e
                 | Inr projected \<Rightarrow> Inr (projected, tgt))
            | _ \<Rightarrow> Inr (gdf, tgt))
      else if truthy src \<and> \<not> truthy tgt
      then (case src of
              Some s \<Rightarrow>
                if crs gdf = None
                then (case set_crs (pyproj_lib env) gdf s of
                        Inl e \<Rightarrow> Inl e
                      | Inr pinned \<Rightarrow> Inr (pinned, src))
                else Inr (gdf, src)
            | None \<Rightarrow> Inr (gdf, tgt))
      else Inr (gdf, tgt))"

record conversion_result =
  output_path :: string
  output_format :: string
  feature_count :: int
  result_source_epsg :: "int option"
  result_target_epsg :: "int option"
  result_quality_report :: quality_report
  geometry_stats :: "clean_stats option"
  attribute_stats :: "normalize_stats option"
  processing_time_s :: real

definition process ::
  "'g env \<Rightarrow> int option \<Rightarrow> 'g gdf \<Rightarrow> string \<Rightarrow> int option \<Rightarrow> bool \<Rightarrow> bool \<Rightarrow> string
     \<Rightarrow> py_exception + conversion_result" where
  \<comment> \<open>\<open>GDALProcessor.process\<close> from the end of stage 3: the first two arguments after the
      environment are the detected source EPSG and the frame as read from the file.\<close>
  "process env src gdf_read fmt tgt fix_geometries normalize_attributes encoding =
     (let (gdf0, h0) = alloc empty_heap gdf_read;
          (gdf_before, h1) = alloc h0 (cells h0 gdf0);
          (gdf1, h2, gstats) =
            (if fix_geometries
             then (let (cleaned, st) = clean (shapely_lib env) (cells h1 gdf0);
                       (r, h) = alloc h1 cleaned
                   in (r, h, Some st))
             else (gdf0, h1, None))
      in case (if normalize_attributes
               then (case attribute_normalize (unicode_nfkd env) (cells h2 gdf1) fmt True of
                       Inl e \<Rightarrow> Inl e
                     | Inr (normalized, st) \<Rightarrow>
                         (let (r, h) = alloc h2 normalized in Inr (r, h, Some st)))
               else Inr (gdf1, h2, None)) of
           Inl e \<Rightarrow> Inl e
         | Inr (gdf2, h3, astats) \<Rightarrow>
             (case reprojection_stage env (cells h3 gdf2) src tgt of
                Inl e \<Rightarrow> Inl e
              | Inr (projected, effective_target_epsg) \<Rightarrow>
                  let (gdf3, h4) = alloc h3 projected
                  in case write_file env gdf3 fmt encoding h4 of
                       (Inl e, h5) \<Rightarrow> Inl e
                     | (Inr path, h5) \<Rightarrow>
                         let final_path = package_if_needed path fmt;
                             report = generate (shapely_lib env) (float_arith env)
                                        (pandas_series env) (cells h5 gdf_before)
                                        (cells h5 gdf3) gstats astats src effective_target_epsg
                         in Inr \<lparr> output_path = final_path,
                                  output_format = fmt,
                                  feature_count = len_gdf (cells h5 gdf3),
                                  result_source_epsg = src,
                                  result_target_epsg = effective_target_epsg,
                                  result_quality_report = report,
                                  geometry_stats = gstats,
                                  attribute_stats = astats,
                                  processing_time_s =
                                    float_round (float_arith env) (processing_time env) 2 \<rparr>))"

text \<open>
  An environment on which the orchestrator can be run. Its projection library knows the
  codes of the detector's table and moves no coordinate; writing without a driver, which
  is how the CSV branch writes, fails as soon as a row has a geometry, and every other
  write succeeds.
\<close>

definition sample_pyproj :: "sample_geometry pyproj" where
  "sample_pyproj =
     \<lparr> known_epsg = (\<lambda>n. n \<in> set (map fst KNOWN_CRS_BBOXES)),
       transform_geom = (\<lambda>a b g. g) \<rparr>"

definition sample_env :: "sample_geometry env" where
  "sample_env =
     \<lparr> shapely_lib = sample_shapely,
       pyproj_lib = sample_pyproj,
       float_arith = decimal_floats,
       unicode_nfkd = (\<lambda>name. name),
       pandas_series = sample_series,
       to_file = (\<lambda>f path kw. kw_driver kw \<noteq> None \<or> list_all (\<lambda>g. g = None) (geometry f)),
       mktemp = (\<lambda>prefix suffix. ''/tmp/'' @ prefix @ ''x1'' @ suffix),
       processing_time = 1 / 4 \<rparr>"


text \<open>Names for the frames that the properties of the orchestrator speak about.\<close>

definition source_crs :: "'g gdf \<Rightarrow> int \<Rightarrow> crs" where
  \<comment> \<open>The CRS that \<open>reproject_geodataframe\<close> transforms from: the frame's own when it is
      the source EPSG, the source EPSG set over it otherwise.\<close>
  "source_crs gdf s =
     (case crs gdf of
        None \<Rightarrow> EPSG s
      | Some c \<Rightarrow> if to_epsg c = Some s then c else EPSG s)"

definition staged_frame ::
  "'g env \<Rightarrow> int option \<Rightarrow> 'g gdf \<Rightarrow> string \<Rightarrow> int option \<Rightarrow> bool \<Rightarrow> bool
     \<Rightarrow> py_exception + 'g gdf" where
  \<comment> \<open>The frame that \<open>process\<close> hands to the write stage, or the exception raised before
      that stage.\<close>
  "staged_frame env src gdf_read fmt tgt fix_geometries normalize_attributes =
     (let g1 = (if fix_geometries then fst (clean (shapely_lib env) gdf_read) else gdf_read)
      in case (if normalize_attributes
               then (case attribute_normalize (unicode_nfkd env) g1 fmt True of
                       Inl e \<Rightarrow> Inl e
                     | Inr (normalized, st) \<Rightarrow> Inr normalized)
               else Inr g1) of
           Inl e \<Rightarrow> Inl e
         | Inr g2 \<Rightarrow>
             (case reprojection_stage env g2 src tgt of
                Inl e \<Rightarrow> Inl e
              | Inr (projected, effective_target_epsg) \<Rightarrow> Inr projected))"

definition written_frame :: "string \<Rightarrow> 'g gdf \<Rightarrow> 'g gdf" where
  \<comment> \<open>A frame after the write stage has run on it.\<close>
  "written_frame fmt f =
     (if fmt = ''CSV'' then set_column ''longitude'' (set_column ''latitude'' f) else f)"

definition local_grid_gdf :: "sample_geometry gdf" where
  "local_grid_gdf =
     \<lparr> columns = [''nom'', ''geometry''], geometry = [Some UnitSquare],
       crs = Some (OtherCRS ''LOCAL_CS[site grid]'') \<rparr>"

definition addresses_gdf :: "sample_geometry gdf" where
  \<comment> \<open>A table of two rows, neither of which has a geometry.\<close>
  "addresses_gdf =
     \<lparr> columns = [''nom'', ''geometry''], geometry = [None, None], crs = None \<rparr>"

definition coordinates_gdf :: "sample_geometry gdf" where
  \<comment> \<open>A table with coordinate columns of its own and no geometry in its two rows.\<close>
  "coordinates_gdf =
     \<lparr> columns = [''latitude'', ''longitude'', ''geometry''], geometry = [None, None],
       crs = None \<rparr>"


section \<open>Job records\<close>

text \<open>
  A UUID is modelled by its canonical text, so \<open>str(job.id)\<close> is the identifier itself;
  a \<open>datetime\<close> is a number of seconds. The database is the two tables that the
  operations read and write, each keyed by its unique column; the broker is the list of
  task identifiers sent to the \<open>conversion\<close> queue.
\<close>

type_synonym uuid = string

datatype JobStatus = PENDING | PROCESSING | SUCCESS | FAILED | EXPIRED

datatype PlanType = FREE | STARTER | PRO | ENTERPRISE

record conversion_job =
  job_id :: uuid
  user_id :: uuid
  celery_task_id :: "string option"
  original_filename :: string
  input_storage_path :: string
  job_output_format :: string
  job_target_epsg :: "int option"
  fix_geometries :: string
  normalize_attributes :: string
  job_encoding :: string
  status :: JobStatus
  output_storage_path :: "string option"
  output_file_size_bytes :: "int option"
  feature_count_input :: "int option"
  feature_count_output :: "int option"
  detected_epsg :: "int option"
  processing_time_seconds :: "real option"
  job_quality_report :: "quality_report option"
  geometry_errors_found :: int
  geometry_errors_fixed :: int
  job_null_geometry_count :: int
  duplicate_count :: int
  download_url :: "string option"
  download_expires_at :: "int option"
  error_message :: "string option"
  error_traceback :: "string option"
  created_at :: int
  started_at :: "int option"
  completed_at :: "int option"

record subscription =
  subscription_user_id :: uuid
  plan :: PlanType
  conversions_used_this_month :: int

record backend =
  db_subscriptions :: "uuid \<rightharpoonup> subscription"
  db_jobs :: "uuid \<rightharpoonup> conversion_job"
  conversion_queue :: "uuid list"

datatype api_error = HTTPException nat | ServerError string


section \<open>Submission and quota\<close>

definition PLAN_LIMITS :: "(PlanType \<times> int) list" where
  "PLAN_LIMITS = [(FREE, 5), (STARTER, 100), (PRO, 1000), (ENTERPRISE, -1)]"

definition plan_limit :: "PlanType \<Rightarrow> int" where
  \<comment> \<open>\<open>PLAN_LIMITS.get(plan, 5)\<close>\<close>
  "plan_limit p = (case map_of PLAN_LIMITS p of Some l \<Rightarrow> l | None \<Rightarrow> 5)"

definition check_quota :: "uuid \<Rightarrow> backend \<Rightarrow> api_error + subscription" where
  "check_quota user st =
     (case db_subscriptions st user of
        None \<Rightarrow> Inl (HTTPException 402)
      | Some sub \<Rightarrow>
          let limit = plan_limit (plan sub)
          in if limit \<noteq> -1 \<and> limit \<le> conversions_used_this_month sub
             then Inl (HTTPException 429)
             else Inr sub)"

record conversion_request =
  storage_path :: string
  request_original_filename :: string
  request_output_format :: string
  request_target_epsg :: "int option"
  request_source_epsg :: "int option"
  request_fix_geometries :: bool
  request_normalize_attributes :: bool
  request_encoding :: string

record conversion_job_response =
  response_job_id :: string
  response_status :: string
  response_created_at :: int
  estimated_wait_seconds :: "int option"

definition py_str_bool_lower :: "bool \<Rightarrow> string" where
  \<comment> \<open>\<open>str(b).lower()\<close>\<close>
  "py_str_bool_lower b = (if b then ''true'' else ''false'')"

definition create_conversion_job ::
  "uuid \<Rightarrow> bool \<Rightarrow> int \<Rightarrow> conversion_request \<Rightarrow> uuid \<Rightarrow> backend
     \<Rightarrow> (api_error + conversion_job_response) \<times> backend" where
  \<comment> \<open>\<open>create_conversion_job\<close>, with the state after the request. The first three
      arguments are the identifier that \<open>uuid4\<close> draws for the job, whether the broker
      accepts the task, and the clock. An exception leaves the session uncommitted, so
      the state is as before. The message text of the response is left out.\<close>
  "create_conversion_job new_id broker_up now payload current_user st =
     (case check_quota current_user st of
        Inl e \<Rightarrow> (Inl e, st)
      | Inr sub \<Rightarrow>
          let job = \<lparr> job_id = new_id, user_id = current_user, celery_task_id = None,
                      original_filename = request_original_filename payload,
                      input_storage_path = storage_path payload,
                      job_output_format = request_output_format payload,
                      job_target_epsg = request_target_epsg payload,
                      fix_geometries = py_str_bool_lower (request_fix_geometries payload),
                      normalize_attributes =
                        py_str_bool_lower (request_normalize_attributes payload),
                      job_encoding = request_encoding payload,
                      status = PENDING,
                      output_storage_path = None, output_file_size_bytes = None,
                      feature_count_input = None, feature_count_output = None,
                      detected_epsg = None, processing_time_seconds = None,
                      job_quality_report = None,
                      geometry_errors_found = 0, geometry_errors_fixed = 0,
                      job_null_geometry_count = 0, duplicate_count = 0,
                      download_url = None, download_expires_at = None,
                      error_message = None, error_traceback = None,
                      created_at = now, started_at = None, completed_at = None \<rparr>
          in if new_id \<in> dom (db_jobs st) then (Inl (ServerError ''IntegrityError''), st)
             else if \<not> broker_up then (Inl (ServerError ''OperationalError''), st)
             else
               let job' = job \<lparr> celery_task_id := Some new_id \<rparr>;
                   sub' = sub \<lparr> conversions_used_this_month :=
                                  conversions_used_this_month sub + 1 \<rparr>
               in (Inr \<lparr> response_job_id = new_id, response_status = ''pending'',
                         response_created_at = created_at job',
                         estimated_wait_seconds = Some 30 \<rparr>,
                   st \<lparr> db_jobs := (db_jobs st)(new_id \<mapsto> job'),
                        db_subscriptions := (db_subscriptions st)(current_user \<mapsto> sub'),
                        conversion_queue := conversion_queue st @ [new_id] \<rparr>))"


section \<open>Conversion worker\<close>

definition MAX_RETRIES :: nat where
  "MAX_RETRIES = 2"

definition DEFAULT_RETRY_DELAY :: nat where
  "DEFAULT_RETRY_DELAY = 10"

record conversion_output =
  stored_path :: string
  stored_size :: int
  features_in :: int
  features_out :: int
  output_source_epsg :: "int option"
  output_processing_time :: real
  output_report :: quality_report
  output_geometry_stats :: "clean_stats option"

datatype attempt = Completed conversion_output | SoftTimeLimitExceeded | Raised string string

datatype task_result =
  JobNotFound | TaskSuccess | TaskTimeout | TaskFailed string | Retry nat | Reraised string

definition retry :: "nat \<Rightarrow> string \<Rightarrow> task_result" where
  \<comment> \<open>\<open>raise self.retry(exc=exc)\<close> in a task declared with \<open>max_retries=2\<close> and
      \<open>default_retry_delay=10\<close>, at a delivery that \<open>retries\<close> retries have preceded: the
      task is sent again with the default delay, or the exception is raised again once
      the retries are used up.\<close>
  "retry retries msg =
     (if retries < MAX_RETRIES then Retry DEFAULT_RETRY_DELAY else Reraised msg)"

definition mark_failed :: "int \<Rightarrow> conversion_job \<Rightarrow> string \<Rightarrow> string \<Rightarrow> conversion_job" where
  \<comment> \<open>\<open>_mark_failed\<close>\<close>
  "mark_failed now job error tb =
     job \<lparr> status := FAILED, completed_at := Some now,
           error_message := Some (take 2000 error), error_traceback := Some (take 5000 tb) \<rparr>"

definition timeout_message :: string where
  "timeout_message =
     ''Timeout d'' @ [CHR 0xE9] @ ''pass'' @ [CHR 0xE9]
       @ '' (10 minutes). Fichier trop volumineux.''"

definition is_transient :: "string \<Rightarrow> bool" where
  \<comment> \<open>\<open>"Connection" in str(exc) or "timeout" in str(exc).lower()\<close>\<close>
  "is_transient msg = (py_in ''Connection'' msg \<or> py_in ''timeout'' (py_lower msg))"

definition convert_file ::
  "nat \<Rightarrow> (nat \<Rightarrow> int) \<Rightarrow> attempt \<Rightarrow> uuid \<Rightarrow> backend \<Rightarrow> task_result \<times> backend" where
  \<comment> \<open>\<open>convert_file\<close>. The arguments before the job identifier are the number of retries
      that preceded this delivery, the successive readings of the clock, and how the body
      of the \<open>try\<close> block ends: with the values it computed, with the soft time limit, or
      with another exception, given by its message and its traceback.\<close>
  "convert_file retries utcnow body jid st =
     (case db_jobs st jid of
        None \<Rightarrow> (JobNotFound, st)
      | Some job0 \<Rightarrow>
          let job1 = job0 \<lparr> status := PROCESSING, started_at := Some (utcnow 0) \<rparr>
          in case body of
               Completed out \<Rightarrow>
                 let job2 = job1
                       \<lparr> status := SUCCESS,
                         completed_at := Some (utcnow 1),
                         output_storage_path := Some (stored_path out),
                         output_file_size_bytes := Some (stored_size out),
                         feature_count_input := Some (features_in out),
                         feature_count_output := Some (features_out out),
                         detected_epsg := output_source_epsg out,
                         processing_time_seconds := Some (output_processing_time out),
                         job_quality_report := Some (output_report out),
                         geometry_errors_found :=
                           stats_get (output_geometry_stats out) invalid_before 0,
                         geometry_errors_fixed := stats_get (output_geometry_stats out) fixed 0,
                         job_null_geometry_count :=
                           stats_get (output_geometry_stats out) null_geometry 0,
                         duplicate_count :=
                           stats_get (output_geometry_stats out) duplicates_removed 0,
                         download_expires_at := Some (utcnow 2 + 24 * 3600),
                         download_url := Some (''/api/v1/download/'' @ jid) \<rparr>
                 in (TaskSuccess, st \<lparr> db_jobs := (db_jobs st)(jid \<mapsto> job2) \<rparr>)
             | SoftTimeLimitExceeded \<Rightarrow>
                 (TaskTimeout,
                  st \<lparr> db_jobs := (db_jobs st)
                         (jid \<mapsto> mark_failed (utcnow 1) job1 timeout_message []) \<rparr>)
             | Raised msg tb \<Rightarrow>
                 let st' = st \<lparr> db_jobs := (db_jobs st)
                                 (jid \<mapsto> mark_failed (utcnow 1) job1 msg tb) \<rparr>
                 in if is_transient msg then (retry retries msg, st')
                    else (TaskFailed msg, st'))"


section \<open>Artifact retrieval\<close>

record download_url_response =
  download_job_id :: string
  download_link :: string
  filename :: string
  expires_at :: int
  file_size_bytes :: "int option"

definition ext_map :: "(string \<times> string) list" where
  "ext_map =
     [(''GeoJSON'', ''.geojson''), (''ESRI Shapefile'', ''.zip''), (''GPKG'', ''.gpkg''),
      (''KML'', ''.kml''), (''DXF'', ''.dxf''), (''CSV'', ''.csv''), (''FlatGeobuf'', ''.fgb''),
      (''OpenFileGDB'', ''.zip'')]"

text \<open>
  What the endpoint takes from outside: the parser of \<open>uuid.UUID\<close> (\<open>None\<close> where it
  raises \<open>ValueError\<close>), \<open>get_url\<close> of the configured storage backend (\<open>None\<close> where it
  raises), the stem of a path, and the successive readings of the clock.
\<close>

record web_env =
  parse_uuid :: "string \<Rightarrow> uuid option"
  storage_get_url :: "string \<Rightarrow> nat \<Rightarrow> string option"
  path_stem :: "string \<Rightarrow> string"
  clock :: "nat \<Rightarrow> int"

definition select_job :: "backend \<Rightarrow> uuid \<Rightarrow> uuid \<Rightarrow> conversion_job option" where
  \<comment> \<open>\<open>select(ConversionJob).where(id == job_id, user_id == current_user.id)\<close>, then
      \<open>scalar_one_or_none()\<close>.\<close>
  "select_job st jid current_user =
     (case db_jobs st jid of
        None \<Rightarrow> None
      | Some job \<Rightarrow> if user_id job = current_user then Some job else None)"

definition get_download_url ::
  "web_env \<Rightarrow> string \<Rightarrow> uuid \<Rightarrow> backend \<Rightarrow> api_error + download_url_response" where
  "get_download_url env job_id_text current_user st =
     (case parse_uuid env job_id_text of
        None \<Rightarrow> Inl (ServerError ''ValueError'')
      | Some jid \<Rightarrow>
          (case select_job st jid current_user of
             None \<Rightarrow> Inl (HTTPException 404)
           | Some job \<Rightarrow>
               if status job \<noteq> SUCCESS then Inl (HTTPException 400)
               else (case output_storage_path job of
                       None \<Rightarrow> Inl (HTTPException 404)
                     | Some path \<Rightarrow>
                         if path = [] then Inl (HTTPException 404)
                         else if (case download_expires_at job of
                                    None \<Rightarrow> False
                                  | Some t \<Rightarrow> t < clock env 0)
                         then Inl (HTTPException 410)
                         else (case storage_get_url env path 3600 of
                                 None \<Rightarrow> Inl (ServerError ''StorageError'')
                               | Some url \<Rightarrow>
                                   let ext = (case map_of ext_map (job_output_format job) of
                                                Some e \<Rightarrow> e | None \<Rightarrow> ''.bin'');
                                       stem = path_stem env (original_filename job);
                                       output_filename = stem @ ''_converted'' @ ext
                                   in Inr \<lparr> download_job_id = job_id job,
                                            download_link = url,
                                            filename = output_filename,
                                            expires_at =
                                              (case download_expires_at job of
                                                 Some t \<Rightarrow> t
                                               | None \<Rightarrow> clock env 1 + 3600),
                                            file_size_bytes = output_file_size_bytes job \<rparr>))))"

text \<open>Sample states on which the operations can be run.\<close>

definition sample_job :: conversion_job where
  "sample_job =
     \<lparr> job_id = ''j1'', user_id = ''alice'', celery_task_id = Some ''j1'',
       original_filename = ''communes.geojson'',
       input_storage_path = ''/uploads/communes.geojson'',
       job_output_format = ''GPKG'', job_target_epsg = None,
       fix_geometries = ''true'', normalize_attributes = ''true'', job_encoding = ''UTF-8'',
       status = SUCCESS,
       output_storage_path = Some ''/outputs/communes.gpkg'',
       output_file_size_bytes = Some 2048,
       feature_count_input = Some 3, feature_count_output = Some 3,
       detected_epsg = Some 4326, processing_time_seconds = None,
       job_quality_report = None,
       geometry_errors_found = 0, geometry_errors_fixed = 0,
       job_null_geometry_count = 0, duplicate_count = 0,
       download_url = Some ''/api/v1/download/j1'', download_expires_at = Some 90000,
       error_message = None, error_traceback = None,
       created_at = 1000, started_at = Some 1100, completed_at = Some 3600 \<rparr>"

definition sample_backend :: backend where
  "sample_backend =
     \<lparr> db_subscriptions =
         [''alice'' \<mapsto> \<lparr> subscription_user_id = ''alice'', plan = FREE,
                          conversions_used_this_month = 5 \<rparr>,
          ''bob'' \<mapsto> \<lparr> subscription_user_id = ''bob'', plan = FREE,
                        conversions_used_this_month = 2 \<rparr>],
       db_jobs = [''j1'' \<mapsto> sample_job],
       conversion_queue = [] \<rparr>"

definition sample_request :: conversion_request where
  "sample_request =
     \<lparr> storage_path = ''/uploads/routes.zip'', request_original_filename = ''routes.zip'',
       request_output_format = ''GeoJSON'', request_target_epsg = Some 2154,
       request_source_epsg = None, request_fix_geometries = True,
       request_normalize_attributes = True, request_encoding = ''UTF-8'' \<rparr>"

definition sample_web_env :: web_env where
  "sample_web_env =
     \<lparr> parse_uuid = (\<lambda>s. if s = ''not-a-uuid'' then None else Some s),
       storage_get_url = (\<lambda>path ttl. Some (''/api/v1/download/file?path='' @ path)),
       path_stem = (\<lambda>name. takeWhile (\<lambda>c. c \<noteq> CHR ''.'') name),
       clock = (\<lambda>n. 50000) \<rparr>"


definition census_gdf :: "sample_geometry gdf" where
  "census_gdf =
     \<lparr> columns = [''population_2019'', ''population_2020'', ''geometry''],
       geometry = [Some UnitSquare], crs = Some (EPSG 4326) \<rparr>"


section \<open>Geometry cleaner: properties\<close>

lemma length_partition_filter:
  "length (filter P xs) + length (filter (\<lambda>x. \<not> P x) xs) = length xs"
  by (induction xs) auto

lemma length_notna_aux:
  "length (concat (map (\<lambda>(i, go). case go of None \<Rightarrow> [] | Some g \<Rightarrow> [(i, g)]) rows))
   + length (filter (\<lambda>g. g = None) (map snd rows)) = length rows"
  by (induction rows) (auto split: option.splits)

lemma length_notna_rows:
  "length (notna_rows geoms) + length (filter (\<lambda>g. g = None) geoms) = length geoms"
  using length_notna_aux [of "zip [0 ..< length geoms] geoms"]
  by (simp add: notna_rows_def)

lemma filter_notna_aux:
  "length (filter (\<lambda>(i, g). P g)
      (concat (map (\<lambda>(i, go). case go of None \<Rightarrow> [] | Some g \<Rightarrow> [(i, g)]) rows)))
   = length (filter (\<lambda>go. case go of None \<Rightarrow> False | Some g \<Rightarrow> P g) (map snd rows))"
  by (induction rows) (auto split: option.splits)

lemma length_filter_notna_rows:
  "length (filter (\<lambda>(i, g). P g) (notna_rows geoms))
   = length (filter (\<lambda>go. case go of None \<Rightarrow> False | Some g \<Rightarrow> P g) geoms)"
  using filter_notna_aux [of P "zip [0 ..< length geoms] geoms"]
  by (simp add: notna_rows_def)

lemma notna_rows_Nil_iff: "notna_rows geoms = [] \<longleftrightarrow> (\<forall>go \<in> set geoms. go = None)"
proof -
  have "length (filter (\<lambda>(i, g). True) (notna_rows geoms))
        = length (filter (\<lambda>go. case go of None \<Rightarrow> False | Some g \<Rightarrow> True) geoms)"
    by (rule length_filter_notna_rows)
  moreover have "filter (\<lambda>(i, g). True) (notna_rows geoms) = notna_rows geoms"
    by (simp add: case_prod_unfold)
  ultimately have "notna_rows geoms = [] \<longleftrightarrow>
      filter (\<lambda>go. case go of None \<Rightarrow> False | Some g \<Rightarrow> True) geoms = []"
    by (metis length_0_conv)
  then show ?thesis
    by (auto simp: filter_empty_conv split: option.splits)
qed

lemma notna_mem_aux:
  "(i, g) \<in> set (concat (map (\<lambda>(i, go). case go of None \<Rightarrow> [] | Some g \<Rightarrow> [(i, g)]) rows))
   \<Longrightarrow> Some g \<in> snd ` set rows"
  by (induction rows) (auto split: option.splits)

lemma notna_rows_mem: "(i, g) \<in> set (notna_rows geoms) \<Longrightarrow> Some g \<in> set geoms"
  using notna_mem_aux [of i g "zip [0 ..< length geoms] geoms"]
  by (auto simp: notna_rows_def dest: set_zip_rightD)

text \<open>
  C1. Whatever the dataset, the statistics that \<open>clean\<close> returns satisfy
  \<open>duplicates_removed + null_geometry + unfixable + total_output = total_input\<close>. This
  covers the early return taken when no row is left after the rows without geometry are
  dropped, an empty input included.
\<close>

theorem clean_conservation:
  "duplicates_removed (snd (clean sh gdf)) + null_geometry (snd (clean sh gdf))
     + unfixable (snd (clean sh gdf)) + total_output (snd (clean sh gdf))
   = total_input (snd (clean sh gdf))"
proof -
  define rows1 where "rows1 = notna_rows (geometry gdf)"
  define geoms2 where "geoms2 = map (\<lambda>(i, g). fix_geometry sh (Some g)) rows1"
  have n1: "length rows1 + length (filter (\<lambda>g. g = None) (geometry gdf))
            = length (geometry gdf)"
    unfolding rows1_def by (rule length_notna_rows)
  have n2: "length geoms2 = length rows1"
    by (simp add: geoms2_def)
  have n3: "length (filter (is_na_or_empty sh) geoms2)
            + length (filter (\<lambda>g. \<not> is_na_or_empty sh g) geoms2) = length geoms2"
    by (rule length_partition_filter)
  show ?thesis
  proof (cases "rows1 = []")
    case True
    then show ?thesis
      using n1
      by (simp add: clean_def Let_def gdf_empty_def len_gdf_def rows1_def[symmetric])
  next
    case False
    then show ?thesis
      using n1 n2 n3
      by (simp add: clean_def Let_def gdf_empty_def len_gdf_def rows1_def[symmetric]
            geoms2_def[symmetric])
  qed
qed

theorem clean_conservation_witness:
  "total_input (snd (clean sample_shapely sample_gdf)) = 6
   \<and> duplicates_removed (snd (clean sample_shapely sample_gdf)) = 1
   \<and> null_geometry (snd (clean sample_shapely sample_gdf)) = 1
   \<and> unfixable (snd (clean sample_shapely sample_gdf)) = 2
   \<and> total_output (snd (clean sample_shapely sample_gdf)) = 2"
  using clean_conservation [of sample_shapely sample_gdf]
  by (simp add: clean_def Let_def gdf_empty_def len_gdf_def notna_rows_def sample_shapely_def
        sample_gdf_def fix_geometry_def is_na_or_empty_def drop_duplicates_def upt_rec)

lemma map_notna_aux:
  "map (\<lambda>(i, g). f (Some g))
     (concat (map (\<lambda>(i, go). case go of None \<Rightarrow> [] | Some g \<Rightarrow> [(i, g)]) rows))
   = map f (filter (\<lambda>go. go \<noteq> None) (map snd rows))"
  by (induction rows) (auto split: option.splits)

lemma map_notna_rows:
  "map (\<lambda>(i, g). f (Some g)) (notna_rows geoms) = map f (filter (\<lambda>go. go \<noteq> None) geoms)"
  using map_notna_aux [of f "zip [0 ..< length geoms] geoms"]
  by (simp add: notna_rows_def)

lemma fix_geometry_never_empty:
  "is_na_or_empty sh (fix_geometry sh go) = (fix_geometry sh go = None)"
  by (auto simp: fix_geometry_def is_na_or_empty_def split: option.splits)

lemma fix_geometry_empty: "is_empty sh g \<Longrightarrow> fix_geometry sh (Some g) = None"
  by (simp add: fix_geometry_def)

lemma set_drop_duplicates_from: "set (drop_duplicates_from kept xs) \<subseteq> set xs"
  by (induction xs arbitrary: kept) auto

lemma clean_geometry_subset:
  "set (geometry (fst (clean sh gdf))) \<subseteq> {go. \<not> is_na_or_empty sh go}"
proof -
  define rows1 where "rows1 = notna_rows (geometry gdf)"
  define geoms3 where "geoms3 = filter (\<lambda>g. \<not> is_na_or_empty sh g)
                                  (map (\<lambda>(i, g). fix_geometry sh (Some g)) rows1)"
  show ?thesis
  proof (cases "rows1 = []")
    case True
    then show ?thesis
      by (simp add: clean_def Let_def gdf_empty_def rows1_def[symmetric])
  next
    case False
    have "set geoms3 \<subseteq> {go. \<not> is_na_or_empty sh go}"
      by (auto simp: geoms3_def)
    with set_drop_duplicates_from [of "[]" geoms3]
    have "set (drop_duplicates geoms3) \<subseteq> {go. \<not> is_na_or_empty sh go}"
      unfolding drop_duplicates_def by blast
    with False show ?thesis
      by (simp add: clean_def Let_def gdf_empty_def rows1_def[symmetric] geoms3_def[symmetric])
  qed
qed

text \<open>
  C9. The repair function returns \<open>None\<close> for every empty geometry \<open>g\<close>, valid or not,
  and so for the valid empty geometry \<open>e\<close> of the dataset. \<open>clean\<close> applies it to
  every row that has a geometry, valid or not, and \<open>unfixable\<close> counts the rows for which
  it returned \<open>None\<close>; none of them is in the frame returned. So when no geometry of the
  dataset is invalid and at least one is empty, \<open>invalid_before\<close> is 0, \<open>unfixable\<close> is
  the number of empty geometries, which is larger than \<open>invalid_before\<close>, and
  \<open>fixed = invalid_before - unfixable\<close> is negative.
\<close>

theorem clean_valid_empty_unfixable:
  assumes valid: "\<forall>g. Some g \<in> set (geometry gdf) \<longrightarrow> is_valid sh g"
      and mem: "Some e \<in> set (geometry gdf)" and empty: "is_empty sh e"
  shows "(is_empty sh g \<longrightarrow> fix_geometry sh (Some g) = None)
       \<and> is_valid sh e \<and> fix_geometry sh (Some e) = None
       \<and> unfixable (snd (clean sh gdf))
           = int (length (filter (\<lambda>go. go \<noteq> None \<and> fix_geometry sh go = None) (geometry gdf)))
       \<and> Some e \<notin> set (geometry (fst (clean sh gdf)))
       \<and> invalid_before (snd (clean sh gdf)) = 0
       \<and> unfixable (snd (clean sh gdf)) = int (length (empty_rows sh (geometry gdf)))
       \<and> invalid_before (snd (clean sh gdf)) < unfixable (snd (clean sh gdf))
       \<and> fixed (snd (clean sh gdf)) < 0"
proof -
  define rows1 where "rows1 = notna_rows (geometry gdf)"
  have ne: "rows1 \<noteq> []"
    using mem by (auto simp: rows1_def notna_rows_Nil_iff)
  have fx: "fix_geometry sh (Some e) = None"
    using empty by (rule fix_geometry_empty)
  have fg: "is_empty sh g \<longrightarrow> fix_geometry sh (Some g) = None"
    by (simp add: fix_geometry_empty)
  have ve: "is_valid sh e"
    using valid mem by blast
  have inv: "length (filter (\<lambda>(i, g). \<not> is_valid sh g) rows1) = 0"
    unfolding rows1_def length_filter_notna_rows
    using valid by (auto simp: filter_empty_conv split: option.splits)
  have applied: "map (\<lambda>(i, g). fix_geometry sh (Some g)) rows1
        = map (fix_geometry sh) (filter (\<lambda>go. go \<noteq> None) (geometry gdf))"
    unfolding rows1_def by (rule map_notna_rows)
  have counted:
    "length (filter (is_na_or_empty sh) (map (\<lambda>(i, g). fix_geometry sh (Some g)) rows1))
     = length (filter (\<lambda>go. go \<noteq> None \<and> fix_geometry sh go = None) (geometry gdf))"
    unfolding applied
    by (simp add: filter_map comp_def fix_geometry_never_empty conj_commute)
  have "filter (\<lambda>go. go \<noteq> None \<and> fix_geometry sh go = None) (geometry gdf)
        = empty_rows sh (geometry gdf)"
    unfolding empty_rows_def
  proof (rule filter_cong [OF refl])
    fix go assume "go \<in> set (geometry gdf)"
    with valid show "(go \<noteq> None \<and> fix_geometry sh go = None)
        = (case go of None \<Rightarrow> False | Some g \<Rightarrow> is_empty sh g)"
      by (cases go) (auto simp: fix_geometry_def)
  qed
  then have unf:
    "length (filter (\<lambda>go. go \<noteq> None \<and> fix_geometry sh go = None) (geometry gdf))
     = length (empty_rows sh (geometry gdf))"
    by simp
  have pos: "0 < length (empty_rows sh (geometry gdf))"
    using mem empty by (force simp: empty_rows_def filter_empty_conv)
  have dropped: "Some e \<notin> set (geometry (fst (clean sh gdf)))"
    using clean_geometry_subset [of sh gdf] empty by (auto simp: is_na_or_empty_def)
  have stats: "unfixable (snd (clean sh gdf))
        = int (length (filter (\<lambda>go. go \<noteq> None \<and> fix_geometry sh go = None) (geometry gdf)))
      \<and> invalid_before (snd (clean sh gdf)) = 0
      \<and> fixed (snd (clean sh gdf)) = - unfixable (snd (clean sh gdf))"
    using ne inv counted
    by (simp add: clean_def Let_def gdf_empty_def rows1_def[symmetric])
  show ?thesis
    using fx fg ve dropped stats unf pos by simp
qed

theorem clean_valid_empty_unfixable_witness:
  "geometry one_empty_gdf = [Some EmptyPolygon]
   \<and> is_valid sample_shapely EmptyPolygon
   \<and> is_empty sample_shapely EmptyPolygon
   \<and> fix_geometry sample_shapely (Some EmptyPolygon) = None
   \<and> geometry (fst (clean sample_shapely one_empty_gdf)) = []
   \<and> invalid_before (snd (clean sample_shapely one_empty_gdf)) = 0
   \<and> unfixable (snd (clean sample_shapely one_empty_gdf)) = 1
   \<and> fixed (snd (clean sample_shapely one_empty_gdf)) < 0"
proof -
  have v: "\<forall>g. Some g \<in> set (geometry one_empty_gdf) \<longrightarrow> is_valid sample_shapely g"
    by (simp add: sample_shapely_def one_empty_gdf_def)
  have m: "Some EmptyPolygon \<in> set (geometry one_empty_gdf)"
    by (simp add: one_empty_gdf_def)
  have e: "is_empty sample_shapely EmptyPolygon"
    by (simp add: sample_shapely_def)
  have n: "length (empty_rows sample_shapely (geometry one_empty_gdf)) = 1"
    by (simp add: empty_rows_def one_empty_gdf_def sample_shapely_def)
  have g: "geometry (fst (clean sample_shapely one_empty_gdf)) = []"
    by (simp add: clean_def Let_def gdf_empty_def len_gdf_def notna_rows_def sample_shapely_def
          one_empty_gdf_def fix_geometry_def is_na_or_empty_def drop_duplicates_def)
  show ?thesis
    using clean_valid_empty_unfixable [OF v m e, of EmptyPolygon] e n g
    by (simp add: one_empty_gdf_def sample_shapely_def)
qed


section \<open>Projection detector: properties\<close>

lemma candidates_snoc:
  "candidates (seen @ [(e, b)]) bounds
   = candidates seen bounds @ (if box_contains b bounds then [(e, b)] else [])"
  by (simp add: candidates_def)

lemma extent_step_eq:
  assumes "well_formed_box bounds"
  shows "extent_step bounds (e, b) (be, bs)
       = (if box_contains b bounds
          then (if (case bs of None \<Rightarrow> True | Some sc \<Rightarrow> box_area b < sc)
                then (Some e, Some (box_area b)) else (be, bs))
          else (be, bs))"
proof -
  obtain b0 b1 b2 b3 where b: "b = (b0, b1, b2, b3)"
    by (metis prod_cases4)
  obtain m0 m1 m2 m3 where bounds: "bounds = (m0, m1, m2, m3)"
    by (metis prod_cases4)
  from assms have "m0 \<le> m2" "m1 \<le> m3"
    by (simp_all add: bounds)
  then have "(b0 \<le> m0 \<and> m0 \<le> b2 \<and> b1 \<le> m1 \<and> m1 \<le> b3 \<and> b0 \<le> m2 \<and> m2 \<le> b2 \<and> b1 \<le> m3 \<and> m3 \<le> b3)
              = (b0 \<le> m0 \<and> m2 \<le> b2 \<and> b1 \<le> m1 \<and> m3 \<le> b3)"
    by auto
  then show ?thesis
    unfolding b bounds by (cases bs) (simp_all add: extent_step_def Let_def)
qed

lemma extent_step_invariant:
  assumes wf: "well_formed_box bounds" and ok: "best_so_far seen bounds acc"
  shows "best_so_far (seen @ [item]) bounds (extent_step bounds item acc)"
proof -
  obtain e b where item: "item = (e, b)"
    by (cases item)
  obtain be bs where acc: "acc = (be, bs)"
    by (cases acc)
  note step = extent_step_eq [OF wf, of e b be bs]
  show ?thesis
  proof (cases "box_contains b bounds")
    case False
    with ok show ?thesis
      by (auto simp: step item acc candidates_snoc best_so_far_def split: option.splits)
  next
    case True
    then have cs: "candidates (seen @ [(e, b)]) bounds = candidates seen bounds @ [(e, b)]"
      by (simp add: candidates_snoc)
    show ?thesis
    proof (cases bs)
      case None
      with ok have "be = None" "candidates seen bounds = []"
        by (auto simp: best_so_far_def acc split: option.splits)
      moreover have "extent_step bounds item acc = (Some e, Some (box_area b))"
        using step None True by (simp add: item acc)
      ultimately show ?thesis
        by (simp add: item cs best_so_far_def del: box_area.simps box_contains.simps)
    next
      case (Some sc)
      with ok obtain e0 b0 where be: "be = Some e0"
        and m0: "(e0, b0) \<in> set (candidates seen bounds)" and sc: "sc = box_area b0"
        and least: "\<forall>(e', b') \<in> set (candidates seen bounds). sc \<le> box_area b'"
        by (auto simp: best_so_far_def acc split: option.splits)
      show ?thesis
      proof (cases "box_area b < sc")
        case less: True
        have "\<forall>(e', b') \<in> set (candidates seen bounds @ [(e, b)]). box_area b \<le> box_area b'"
          using least less by fastforce
        moreover have "\<exists>b'. (e, b') \<in> set (candidates seen bounds @ [(e, b)])
                            \<and> box_area b = box_area b'"
          by (rule exI [of _ b]) simp
        moreover have "extent_step bounds item acc = (Some e, Some (box_area b))"
          using step Some True less by (simp add: item acc)
        ultimately show ?thesis
          by (simp add: item cs best_so_far_def del: box_area.simps box_contains.simps)
      next
        case geq: False
        have "\<forall>(e', b') \<in> set (candidates seen bounds @ [(e, b)]). sc \<le> box_area b'"
          using least geq by fastforce
        moreover have "\<exists>b'. (e0, b') \<in> set (candidates seen bounds @ [(e, b)]) \<and> sc = box_area b'"
          using m0 sc by (intro exI [of _ b0]) simp
        moreover have "extent_step bounds item acc = (Some e0, Some sc)"
          using step Some True geq be by (simp add: item acc)
        ultimately show ?thesis
          by (simp add: item cs best_so_far_def del: box_area.simps box_contains.simps)
      qed
    qed
  qed
qed

lemma extent_loop_invariant:
  "well_formed_box bounds \<Longrightarrow> best_so_far seen bounds acc
   \<Longrightarrow> best_so_far (seen @ table) bounds (extent_loop table bounds acc)"
proof (induction table arbitrary: seen acc)
  case Nil
  then show ?case by simp
next
  case (Cons item table)
  have "best_so_far (seen @ [item]) bounds (extent_step bounds item acc)"
    using Cons.prems by (rule extent_step_invariant)
  with Cons.prems(1) have "best_so_far ((seen @ [item]) @ table) bounds
      (extent_loop table bounds (extent_step bounds item acc))"
    by (rule Cons.IH)
  then show ?case by simp
qed

lemma extent_loop_result:
  assumes "well_formed_box bounds"
  shows "best_so_far table bounds (extent_loop table bounds (None, None))"
  using extent_loop_invariant [OF assms, of "[]" "(None, None)" table]
  by (simp add: best_so_far_def candidates_def)

lemma known_epsg_nonzero: "(e, b) \<in> set KNOWN_CRS_BBOXES \<Longrightarrow> e \<noteq> 0"
  by (auto simp: KNOWN_CRS_BBOXES_def)

text \<open>
  C6. For a data box \<open>(minx, miny, maxx, maxy)\<close> with \<open>minx \<le> maxx\<close> and
  \<open>miny \<le> maxy\<close>, as the total bounds of a frame are: when no box of the built-in table
  contains the data box, the extent heuristic returns no EPSG code with confidence
  \<open>low\<close>; otherwise it returns, with confidence \<open>medium\<close>, the code of an entry of the
  table whose box contains the data box and whose area is smallest among the entries that
  contain it.
\<close>

theorem detect_from_extent_smallest_containing:
  assumes wf: "well_formed_box bounds"
  shows "(candidates KNOWN_CRS_BBOXES bounds = []
            \<longrightarrow> detect_from_extent (Extent bounds) = (None, ''low''))
       \<and> (candidates KNOWN_CRS_BBOXES bounds \<noteq> []
            \<longrightarrow> (\<exists>e b. detect_from_extent (Extent bounds) = (Some e, ''medium'')
                    \<and> (e, b) \<in> set KNOWN_CRS_BBOXES \<and> box_contains b bounds
                    \<and> (\<forall>(e', b') \<in> set KNOWN_CRS_BBOXES.
                          box_contains b' bounds \<longrightarrow> box_area b \<le> box_area b')))"
proof -
  define r where "r = extent_loop KNOWN_CRS_BBOXES bounds (None, None)"
  have inv: "best_so_far KNOWN_CRS_BBOXES bounds r"
    unfolding r_def using wf by (rule extent_loop_result)
  show ?thesis
  proof (cases "candidates KNOWN_CRS_BBOXES bounds = []")
    case True
    with inv have "r = (None, None)"
      by (cases r) (auto simp: best_so_far_def split: option.splits)
    with True show ?thesis
      by (simp add: detect_from_extent_def r_def[symmetric] truthy_def)
  next
    case False
    with inv obtain e a b where r: "r = (Some e, Some a)"
      and mem: "(e, b) \<in> set (candidates KNOWN_CRS_BBOXES bounds)" and a: "a = box_area b"
      and least: "\<forall>(e', b') \<in> set (candidates KNOWN_CRS_BBOXES bounds). a \<le> box_area b'"
      by (cases r) (auto simp: best_so_far_def split: option.splits)
    from mem have in_table: "(e, b) \<in> set KNOWN_CRS_BBOXES" and cont: "box_contains b bounds"
      by (auto simp: candidates_def)
    from in_table have "e \<noteq> 0" by (rule known_epsg_nonzero)
    then have res: "detect_from_extent (Extent bounds) = (Some e, ''medium'')"
      by (simp add: detect_from_extent_def r_def[symmetric] r truthy_def)
    have "\<forall>(e', b') \<in> set KNOWN_CRS_BBOXES. box_contains b' bounds \<longrightarrow> box_area b \<le> box_area b'"
      using least a by (auto simp: candidates_def)
    with False res in_table cont show ?thesis by blast
  qed
qed


theorem detect_from_extent_smallest_containing_witness:
  "well_formed_box (2, 48, 3, 49)
   \<and> candidates KNOWN_CRS_BBOXES (2, 48, 3, 49)
       = [(4326, (-180, -90, 180, 90)),
          (3857, (-20037508, -20048966, 20037508, 20048966)),
          (4171, (-514 / 100, 4133 / 100, 956 / 100, 5109 / 100)),
          (27700, (-103976, -16703, 652897, 1199848))]
   \<and> detect_from_extent (Extent (2, 48, 3, 49)) = (Some 4171, ''medium'')"
proof -
  have wf: "well_formed_box (2, 48, 3, 49)"
    by simp
  have cands: "candidates KNOWN_CRS_BBOXES (2, 48, 3, 49)
       = [(4326, (-180, -90, 180, 90)),
          (3857, (-20037508, -20048966, 20037508, 20048966)),
          (4171, (-514 / 100, 4133 / 100, 956 / 100, 5109 / 100)),
          (27700, (-103976, -16703, 652897, 1199848))]"
    by (simp add: candidates_def KNOWN_CRS_BBOXES_def)
  have res: "detect_from_extent (Extent (2, 48, 3, 49)) = (Some 4171, ''medium'')"
    by (simp add: detect_from_extent_def KNOWN_CRS_BBOXES_def extent_step_def truthy_def)
  show ?thesis
    using detect_from_extent_smallest_containing [OF wf] cands res by simp
qed


section \<open>Quality reporter: properties\<close>

lemma compute_score_range:
  "0 \<le> fst (compute_score fl report gs) \<and> fst (compute_score fl report gs) \<le> 100"
  by (simp add: compute_score_def Let_def)

lemma generate_score:
  "quality_score (generate sh fl series before after gs as src tgt)
   = fst (compute_score fl
       \<lparr> summary = build_summary before after,
         geometry_quality = build_geometry_section sh fl after gs,
         attribute_quality = build_attribute_section fl series after as,
         projection = build_projection_section src tgt,
         quality_score = 0, quality_grade = ''F'', recommendations = [] \<rparr> gs)"
  by (simp add: generate_def Let_def split_def)

lemma generate_grade:
  "quality_grade (generate sh fl series before after gs as src tgt)
   = score_to_grade (quality_score (generate sh fl series before after gs as src tgt))"
  by (simp add: generate_def Let_def split_def)

text \<open>
  C7. In every report that \<open>generate\<close> returns, the quality score lies between 0 and 100,
  and the grade is A for a score of at least 90, B from 80, C from 70, D from 60 and F below
  60. The bounds come from the final clamp: they hold whatever the arithmetic of floats
  gives for the rates.
\<close>

theorem generate_score_and_grade:
  "0 \<le> quality_score (generate sh fl series before after gs as src tgt)
   \<and> quality_score (generate sh fl series before after gs as src tgt) \<le> 100
   \<and> (90 \<le> quality_score (generate sh fl series before after gs as src tgt)
        \<longrightarrow> quality_grade (generate sh fl series before after gs as src tgt) = ''A'')
   \<and> (80 \<le> quality_score (generate sh fl series before after gs as src tgt)
        \<and> quality_score (generate sh fl series before after gs as src tgt) < 90
        \<longrightarrow> quality_grade (generate sh fl series before after gs as src tgt) = ''B'')
   \<and> (70 \<le> quality_score (generate sh fl series before after gs as src tgt)
        \<and> quality_score (generate sh fl series before after gs as src tgt) < 80
        \<longrightarrow> quality_grade (generate sh fl series before after gs as src tgt) = ''C'')
   \<and> (60 \<le> quality_score (generate sh fl series before after gs as src tgt)
        \<and> quality_score (generate sh fl series before after gs as src tgt) < 70
        \<longrightarrow> quality_grade (generate sh fl series before after gs as src tgt) = ''D'')
   \<and> (quality_score (generate sh fl series before after gs as src tgt) < 60
        \<longrightarrow> quality_grade (generate sh fl series before after gs as src tgt) = ''F'')"
proof -
  define r where "r = generate sh fl series before after gs as src tgt"
  have range: "0 \<le> quality_score r \<and> quality_score r \<le> 100"
    unfolding r_def generate_score by (rule compute_score_range)
  have grade: "quality_grade r = score_to_grade (quality_score r)"
    unfolding r_def by (rule generate_grade)
  show ?thesis
    unfolding r_def[symmetric] using range
    by (simp add: grade score_to_grade_def)
qed

theorem generate_score_and_grade_witness:
  "quality_score (generate sample_shapely decimal_floats sample_series sample_gdf sample_gdf
      None None None None) = 77
   \<and> quality_grade (generate sample_shapely decimal_floats sample_series sample_gdf sample_gdf
      None None None None) = ''C''"
proof -
  have score: "quality_score (generate sample_shapely decimal_floats sample_series sample_gdf
      sample_gdf None None None None) = 77"
    by code_simp
  show ?thesis
    using generate_score_and_grade [of sample_shapely decimal_floats sample_series sample_gdf
        sample_gdf None None None None]
    by (simp add: score)
qed


section \<open>Conversion orchestrator: properties\<close>

lemma reproject_geodataframe_result:
  assumes "known_epsg pj s" and "known_epsg pj t"
  shows "reproject_geodataframe pj gdf s t
   = Inr (gdf \<lparr> geometry := map (map_option (transform_geom pj (source_crs gdf s) (EPSG t)))
                               (geometry gdf),
                crs := Some (EPSG t) \<rparr>)"
  using assms
  by (cases "crs gdf")
     (auto simp: reproject_geodataframe_def set_crs_def to_crs_def source_crs_def)

lemma reproject_geodataframe_unknown_target:
  "\<not> known_epsg pj t \<Longrightarrow> reproject_geodataframe pj gdf s t = Inl CRSError"
  by (cases "crs gdf")
     (auto simp: reproject_geodataframe_def set_crs_def to_crs_def)

lemma reproject_geodataframe_error:
  "reproject_geodataframe pj gdf s t = Inl e \<Longrightarrow> e = CRSError"
  by (cases "crs gdf")
     (auto simp: reproject_geodataframe_def set_crs_def to_crs_def split: if_splits)

lemma reprojection_stage_error:
  "reprojection_stage env gdf src tgt = Inl e \<Longrightarrow> e = CRSError"
  by (auto simp: reprojection_stage_def set_crs_def dest: reproject_geodataframe_error
        split: if_splits option.splits sum.splits)

text \<open>
  C8, as the code has it. In the reprojection stage: when a target EPSG is given and
  differs from the detected source EPSG, the dataset is reprojected to the target if the
  projection library knows both codes, and the stage raises a CRS error if it does not
  know the target; when no target is given and the source is known, coordinates are not
  transformed and the source becomes the effective target EPSG, the dataset getting the
  source as its CRS if it was read without one (and the library knows the code) and
  keeping its own CRS otherwise; when neither is known the dataset is passed on as it is,
  with the CRS it was read with. The stage raises nothing but a CRS error. A target given
  while no source was detected is not part of the statement.
\<close>

theorem reprojection_stage_policy:
  "(s \<noteq> 0 \<and> t \<noteq> 0 \<and> t \<noteq> s \<and> known_epsg (pyproj_lib env) s \<and> known_epsg (pyproj_lib env) t \<longrightarrow>
      reprojection_stage env gdf (Some s) (Some t)
      = Inr (gdf \<lparr> geometry := map (map_option (transform_geom (pyproj_lib env)
                                                  (source_crs gdf s) (EPSG t)))
                                  (geometry gdf),
                   crs := Some (EPSG t) \<rparr>, Some t))
   \<and> (s \<noteq> 0 \<and> t \<noteq> 0 \<and> t \<noteq> s \<and> \<not> known_epsg (pyproj_lib env) t \<longrightarrow>
      reprojection_stage env gdf (Some s) (Some t) = Inl CRSError)
   \<and> (s \<noteq> 0 \<and> crs gdf = None \<and> known_epsg (pyproj_lib env) s \<longrightarrow>
      reprojection_stage env gdf (Some s) None = Inr (gdf \<lparr> crs := Some (EPSG s) \<rparr>, Some s))
   \<and> (s \<noteq> 0 \<and> crs gdf \<noteq> None \<longrightarrow>
      reprojection_stage env gdf (Some s) None = Inr (gdf, Some s))
   \<and> reprojection_stage env gdf None None = Inr (gdf, None)
   \<and> (reprojection_stage env gdf src tgt = Inl e \<longrightarrow> e = CRSError)"
proof -
  have c1: "s \<noteq> 0 \<and> t \<noteq> 0 \<and> t \<noteq> s \<and> known_epsg (pyproj_lib env) s \<and> known_epsg (pyproj_lib env) t \<longrightarrow>
      reprojection_stage env gdf (Some s) (Some t)
      = Inr (gdf \<lparr> geometry := map (map_option (transform_geom (pyproj_lib env)
                                                  (source_crs gdf s) (EPSG t)))
                                  (geometry gdf),
                   crs := Some (EPSG t) \<rparr>, Some t)"
    by (simp add: reprojection_stage_def truthy_def reproject_geodataframe_result)
  have c2: "s \<noteq> 0 \<and> t \<noteq> 0 \<and> t \<noteq> s \<and> \<not> known_epsg (pyproj_lib env) t \<longrightarrow>
      reprojection_stage env gdf (Some s) (Some t) = Inl CRSError"
    by (simp add: reprojection_stage_def truthy_def reproject_geodataframe_unknown_target)
  have c3: "s \<noteq> 0 \<and> crs gdf = None \<and> known_epsg (pyproj_lib env) s \<longrightarrow>
      reprojection_stage env gdf (Some s) None = Inr (gdf \<lparr> crs := Some (EPSG s) \<rparr>, Some s)"
    by (simp add: reprojection_stage_def truthy_def set_crs_def)
  have c4: "s \<noteq> 0 \<and> crs gdf \<noteq> None \<longrightarrow>
      reprojection_stage env gdf (Some s) None = Inr (gdf, Some s)"
    by (simp add: reprojection_stage_def truthy_def)
  have c5: "reprojection_stage env gdf None None = Inr (gdf, None)"
    by (simp add: reprojection_stage_def truthy_def)
  have c6: "reprojection_stage env gdf src tgt = Inl e \<longrightarrow> e = CRSError"
    using reprojection_stage_error by blast
  show ?thesis
    using c1 c2 c3 c4 c5 c6 by blast
qed

theorem reprojection_stage_policy_witness:
  "reprojection_stage sample_env sample_gdf (Some 4326) (Some 2154)
     = Inr (sample_gdf \<lparr> crs := Some (EPSG 2154) \<rparr>, Some 2154)
   \<and> reprojection_stage sample_env sample_gdf (Some 4326) (Some 30000) = Inl CRSError
   \<and> reprojection_stage sample_env sample_gdf (Some 4326) None
     = Inr (sample_gdf \<lparr> crs := Some (EPSG 4326) \<rparr>, Some 4326)
   \<and> reprojection_stage sample_env local_grid_gdf (Some 2154) None
     = Inr (local_grid_gdf, Some 2154)
   \<and> reprojection_stage sample_env sample_gdf None None = Inr (sample_gdf, None)"
proof -
  have k: "known_epsg (pyproj_lib sample_env) 4326 \<and> known_epsg (pyproj_lib sample_env) 2154
      \<and> \<not> known_epsg (pyproj_lib sample_env) 30000"
    by (simp add: sample_env_def sample_pyproj_def KNOWN_CRS_BBOXES_def)
  have tr: "transform_geom (pyproj_lib sample_env) = (\<lambda>a b g. g)"
    by (simp add: sample_env_def sample_pyproj_def)
  have c: "crs sample_gdf = None \<and> crs local_grid_gdf \<noteq> None"
    by (simp add: sample_gdf_def local_grid_gdf_def)
  have idm: "map (map_option (\<lambda>g. g)) (geometry sample_gdf) = geometry sample_gdf"
    by (simp add: option.map_ident map_idI)
  have same: "sample_gdf \<lparr> geometry := geometry sample_gdf, crs := Some (EPSG 2154) \<rparr>
      = sample_gdf \<lparr> crs := Some (EPSG 2154) \<rparr>"
    by simp
  show ?thesis
    using reprojection_stage_policy [of 4326 2154 sample_env sample_gdf None None CRSError]
      reprojection_stage_policy [of 4326 30000 sample_env sample_gdf "Some 4326" "Some 30000"
        CRSError]
      reprojection_stage_policy [of 2154 4326 sample_env local_grid_gdf None None CRSError]
      k c
    by (simp add: tr idm same)
qed

text \<open>
  C8, counterexample. The claim as stated fails on three runs. A dataset that was read
  with a CRS of its own (here a local grid that is no EPSG code) while the detector found
  EPSG 4326 and no target was asked for is returned as it is, with its own CRS and not the
  source, and EPSG 4326 as the effective target. The same dataset, when the detector found
  nothing and no target was asked for, is passed on with its CRS, not with an unspecified
  one. And a target that the projection library does not know, such as 30000, is not
  reprojected to: the stage raises.
\<close>

theorem reprojection_stage_pin_counterexample:
  "reprojection_stage sample_env local_grid_gdf (Some 4326) None
     = Inr (local_grid_gdf, Some 4326)
   \<and> crs local_grid_gdf = Some (OtherCRS ''LOCAL_CS[site grid]'')
   \<and> Some (OtherCRS ''LOCAL_CS[site grid]'') \<noteq> Some (EPSG 4326)
   \<and> reprojection_stage sample_env local_grid_gdf None None = Inr (local_grid_gdf, None)
   \<and> reprojection_stage sample_env sample_gdf (Some 4326) (Some 30000) = Inl CRSError"
proof -
  have a: "reprojection_stage sample_env local_grid_gdf (Some 4326) None
     = Inr (local_grid_gdf, Some 4326)"
    by (simp add: reprojection_stage_def truthy_def local_grid_gdf_def)
  have b: "crs local_grid_gdf = Some (OtherCRS ''LOCAL_CS[site grid]'')"
    by (simp add: local_grid_gdf_def)
  have c: "reprojection_stage sample_env local_grid_gdf None None = Inr (local_grid_gdf, None)"
    by (simp add: reprojection_stage_def truthy_def)
  have d: "reprojection_stage sample_env sample_gdf (Some 4326) (Some 30000) = Inl CRSError"
    by (simp add: reprojection_stage_def truthy_def reproject_geodataframe_def set_crs_def
          to_crs_def sample_gdf_def sample_env_def sample_pyproj_def KNOWN_CRS_BBOXES_def)
  show ?thesis
    using a b c d by simp
qed


lemma csv_config:
  "map_of FORMAT_CONFIG ''CSV'' = Some \<lparr> driver = ''CSV'', ext = ''.csv'', single_file = True \<rparr>"
  by (simp add: FORMAT_CONFIG_def)

lemma write_file_heap:
  "cells (snd (write_file env r fmt enc h)) = (cells h)(r := written_frame fmt (cells h r))"
  by (auto simp: write_file_def written_frame_def Let_def csv_config split: option.splits)

lemma write_file_other_format:
  "fmt \<noteq> ''CSV'' \<Longrightarrow> snd (write_file env r fmt enc h) = h"
  by (auto simp: write_file_def Let_def split: option.splits)

lemma generate_summary:
  "summary (generate sh fl sr before after gs as src tgt) = build_summary before after"
  by (simp add: generate_def Let_def split_def)

lemma generate_attribute_quality:
  "attribute_quality (generate sh fl sr before after gs as src tgt)
   = build_attribute_section fl sr after as"
  by (simp add: generate_def Let_def split_def)

lemma process_summary:
  assumes "process env src gdf_read fmt tgt fx nm enc = Inr res"
      and "staged_frame env src gdf_read fmt tgt fx nm = Inr pre"
  shows "summary (result_quality_report res) = build_summary gdf_read (written_frame fmt pre)"
  using assms
  by (cases fx; cases nm)
     (auto simp: process_def Let_def split_def alloc_def empty_heap_def staged_frame_def
        write_file_heap generate_summary split: prod.splits sum.splits)

lemma process_attribute_quality:
  assumes "process env src gdf_read fmt tgt fx nm enc = Inr res"
      and "staged_frame env src gdf_read fmt tgt fx nm = Inr pre"
  shows "\<exists>as. attribute_quality (result_quality_report res)
     = build_attribute_section (float_arith env) (pandas_series env) (written_frame fmt pre) as"
  using assms
  by (cases fx; cases nm)
     (auto simp: process_def Let_def split_def alloc_def empty_heap_def staged_frame_def
        write_file_heap generate_attribute_quality split: prod.splits sum.splits)

lemma process_staged:
  assumes "process env src gdf_read fmt tgt fx nm enc = Inr res"
  shows "\<exists>pre. staged_frame env src gdf_read fmt tgt fx nm = Inr pre"
  using assms
  by (cases fx; cases nm)
     (auto simp: process_def Let_def split_def alloc_def empty_heap_def staged_frame_def
        split: prod.splits sum.splits)

lemma fold_update_keys:
  "fst ` set (fold (\<lambda>c acc. AList.update c (f c) acc) cols acc0) = set cols \<union> fst ` set acc0"
  by (induction cols arbitrary: acc0) (auto simp: dom_update)

lemma attribute_section_keys:
  assumes "geometry f \<noteq> []"
  shows "\<exists>a. build_attribute_section fl sr f as = Some a
       \<and> fst ` set (attribute_columns a) = set (columns f) - {''geometry''}
       \<and> total_columns a = int (length (filter (\<lambda>c. c \<noteq> ''geometry'') (columns f)))"
  using assms
  by (auto simp: build_attribute_section_def gdf_empty_def Let_def fold_update_keys)

lemma set_column_geometry: "geometry (set_column l f) = geometry f"
  by (simp add: set_column_def)

lemma set_column_mem: "l \<in> set (columns (set_column l f))"
  by (simp add: set_column_def)

lemma set_column_mono: "set (columns f) \<subseteq> set (columns (set_column l f))"
  by (auto simp: set_column_def)

text \<open>
  C10, as the code has it. With the output format CSV the write stage assigns the columns
  \<open>latitude\<close> and \<open>longitude\<close> on the frame object that it is given (a column that
  already bears the label keeps its place, a new one is appended) and with any other
  format it leaves the heap as it is. When the run reaches the report, the report is
  generated from that same object, so for CSV its \<open>columns_output\<close> counts the columns of
  the frame with both labels set, two more than the frame handed to the write stage had
  when neither label was there, and its attribute section lists both labels when the frame
  has a row. The copy taken before the clean-up is another object: \<open>columns_input\<close> is not
  affected. Here \<open>pre\<close> is the frame handed to the write stage.
\<close>

theorem write_stage_columns_in_report:
  assumes ok: "process env src gdf_read fmt tgt fx nm enc = Inr res"
      and staged: "staged_frame env src gdf_read fmt tgt fx nm = Inr pre"
  shows "cells (snd (write_file env r ''CSV'' enc h))
           = (cells h)(r := set_column ''longitude'' (set_column ''latitude'' (cells h r)))
       \<and> (fmt \<noteq> ''CSV'' \<longrightarrow> snd (write_file env r fmt enc h) = h)
       \<and> columns_input (summary (result_quality_report res)) = int (length (columns gdf_read)) - 1
       \<and> (fmt = ''CSV'' \<longrightarrow>
            columns_output (summary (result_quality_report res))
            = int (length (columns (set_column ''longitude'' (set_column ''latitude'' pre)))) - 1)
       \<and> (fmt = ''CSV'' \<and> ''latitude'' \<notin> set (columns pre) \<and> ''longitude'' \<notin> set (columns pre) \<longrightarrow>
            columns_output (summary (result_quality_report res))
            = int (length (columns pre)) - 1 + 2)
       \<and> (fmt = ''CSV'' \<and> geometry pre \<noteq> [] \<longrightarrow>
            (\<exists>a. attribute_quality (result_quality_report res) = Some a
               \<and> ''latitude'' \<in> fst ` set (attribute_columns a)
               \<and> ''longitude'' \<in> fst ` set (attribute_columns a)))
       \<and> (fmt \<noteq> ''CSV'' \<longrightarrow>
            columns_output (summary (result_quality_report res))
            = int (length (columns pre)) - 1)"
proof -
  define rep where "rep = result_quality_report res"
  have summ: "summary rep = build_summary gdf_read (written_frame fmt pre)"
    unfolding rep_def using ok staged by (rule process_summary)
  obtain as where attr: "attribute_quality rep
      = build_attribute_section (float_arith env) (pandas_series env) (written_frame fmt pre) as"
    unfolding rep_def using process_attribute_quality [OF ok staged] by blast
  have c1: "cells (snd (write_file env r ''CSV'' enc h))
           = (cells h)(r := set_column ''longitude'' (set_column ''latitude'' (cells h r)))"
    by (simp add: write_file_heap written_frame_def)
  have c2: "fmt \<noteq> ''CSV'' \<longrightarrow> snd (write_file env r fmt enc h) = h"
    by (simp add: write_file_other_format)
  have c3: "columns_input (summary rep) = int (length (columns gdf_read)) - 1"
    by (simp add: summ build_summary_def)
  have c4: "fmt = ''CSV'' \<longrightarrow> columns_output (summary rep)
      = int (length (columns (set_column ''longitude'' (set_column ''latitude'' pre)))) - 1"
    by (simp add: summ build_summary_def written_frame_def)
  have c5: "fmt = ''CSV'' \<and> ''latitude'' \<notin> set (columns pre) \<and> ''longitude'' \<notin> set (columns pre)
      \<longrightarrow> columns_output (summary rep) = int (length (columns pre)) - 1 + 2"
    by (simp add: summ build_summary_def written_frame_def set_column_def)
  have c6: "fmt = ''CSV'' \<and> geometry pre \<noteq> [] \<longrightarrow>
            (\<exists>a. attribute_quality rep = Some a
               \<and> ''latitude'' \<in> fst ` set (attribute_columns a)
               \<and> ''longitude'' \<in> fst ` set (attribute_columns a))"
  proof (intro impI)
    assume a: "fmt = ''CSV'' \<and> geometry pre \<noteq> []"
    then have "geometry (written_frame fmt pre) \<noteq> []"
      by (simp add: written_frame_def set_column_geometry)
    from attribute_section_keys [OF this, of "float_arith env" "pandas_series env" as]
    obtain sec where sec: "build_attribute_section (float_arith env) (pandas_series env)
          (written_frame fmt pre) as = Some sec"
      and keys: "fst ` set (attribute_columns sec) = set (columns (written_frame fmt pre)) - {''geometry''}"
      by blast
    have "''latitude'' \<in> set (columns (written_frame fmt pre))"
      using a set_column_mem [of "''latitude''" pre]
        set_column_mono [of "set_column ''latitude'' pre" "''longitude''"]
      by (auto simp: written_frame_def)
    moreover have "''longitude'' \<in> set (columns (written_frame fmt pre))"
      using a set_column_mem [of "''longitude''" "set_column ''latitude'' pre"]
      by (simp add: written_frame_def)
    ultimately show "\<exists>a. attribute_quality rep = Some a
               \<and> ''latitude'' \<in> fst ` set (attribute_columns a)
               \<and> ''longitude'' \<in> fst ` set (attribute_columns a)"
      using sec keys attr by simp
  qed
  have c7: "fmt \<noteq> ''CSV'' \<longrightarrow> columns_output (summary rep) = int (length (columns pre)) - 1"
    by (simp add: summ build_summary_def written_frame_def)
  show ?thesis
    unfolding rep_def[symmetric]
    using c1 c2 c3 c4 c5 c6 c7 by blast
qed

lemma process_csv_without_geometry:
  assumes "list_all (\<lambda>g. g = None) (geometry f)"
  shows "\<not> isl (process sample_env None f ''CSV'' None False False ''UTF-8'')"
  using assms
  by (simp add: process_def Let_def split_def alloc_def empty_heap_def write_file_def csv_config
        sample_env_def reprojection_stage_def truthy_def set_column_geometry)

lemma staged_frame_as_read:
  "staged_frame env None f fmt None False False = Inr f"
  by (simp add: staged_frame_def reprojection_stage_def truthy_def)

theorem write_stage_columns_in_report_witness:
  "geometry addresses_gdf = [None, None]
   \<and> columns addresses_gdf = [''nom'', ''geometry'']
   \<and> \<not> isl (process sample_env None addresses_gdf ''CSV'' None False False ''UTF-8'')
   \<and> staged_frame sample_env None addresses_gdf ''CSV'' None False False = Inr addresses_gdf
   \<and> columns_input (summary (result_quality_report
        (projr (process sample_env None addresses_gdf ''CSV'' None False False ''UTF-8'')))) = 1
   \<and> columns_output (summary (result_quality_report
        (projr (process sample_env None addresses_gdf ''CSV'' None False False ''UTF-8'')))) = 3
   \<and> (\<exists>a. attribute_quality (result_quality_report
             (projr (process sample_env None addresses_gdf ''CSV'' None False False ''UTF-8'')))
           = Some a
         \<and> ''latitude'' \<in> fst ` set (attribute_columns a)
         \<and> ''longitude'' \<in> fst ` set (attribute_columns a))"
proof -
  have geo: "geometry addresses_gdf = [None, None]"
    by (simp add: addresses_gdf_def)
  have cols: "columns addresses_gdf = [''nom'', ''geometry'']"
    by (simp add: addresses_gdf_def)
  have ok: "\<not> isl (process sample_env None addresses_gdf ''CSV'' None False False ''UTF-8'')"
    by (rule process_csv_without_geometry) (simp add: geo)
  then have eq: "process sample_env None addresses_gdf ''CSV'' None False False ''UTF-8''
      = Inr (projr (process sample_env None addresses_gdf ''CSV'' None False False ''UTF-8''))"
    by (cases "process sample_env None addresses_gdf ''CSV'' None False False ''UTF-8''") simp_all
  have pre: "staged_frame sample_env None addresses_gdf ''CSV'' None False False
      = Inr addresses_gdf"
    by (rule staged_frame_as_read)
  show ?thesis
    using write_stage_columns_in_report [OF eq pre] ok pre
    by (simp add: geo cols set_column_def)
qed

text \<open>
  C10, counterexample. The claim as stated fails on a dataset that already has columns
  labelled \<open>latitude\<close> and \<open>longitude\<close>, as a table of coordinates has: the write
  stage overwrites them in place and the report counts two columns, as many as the frame
  had before the write stage. The rows of the dataset have no geometry, so that the write
  without a driver succeeds and the run reaches the report.
\<close>

theorem csv_existing_columns_counterexample:
  "geometry coordinates_gdf = [None, None]
   \<and> \<not> isl (process sample_env None coordinates_gdf ''CSV'' None False False ''UTF-8'')
   \<and> staged_frame sample_env None coordinates_gdf ''CSV'' None False False
       = Inr coordinates_gdf
   \<and> columns coordinates_gdf = [''latitude'', ''longitude'', ''geometry'']
   \<and> columns_output (summary (result_quality_report
        (projr (process sample_env None coordinates_gdf ''CSV'' None False False ''UTF-8'')))) = 2"
proof -
  have geo: "geometry coordinates_gdf = [None, None]"
    by (simp add: coordinates_gdf_def)
  have ok: "\<not> isl (process sample_env None coordinates_gdf ''CSV'' None False False ''UTF-8'')"
    by (rule process_csv_without_geometry) (simp add: geo)
  then have eq: "process sample_env None coordinates_gdf ''CSV'' None False False ''UTF-8''
      = Inr (projr (process sample_env None coordinates_gdf ''CSV'' None False False ''UTF-8''))"
    by (cases "process sample_env None coordinates_gdf ''CSV'' None False False ''UTF-8''")
       simp_all
  have pre: "staged_frame sample_env None coordinates_gdf ''CSV'' None False False
      = Inr coordinates_gdf"
    by (rule staged_frame_as_read)
  have "summary (result_quality_report
        (projr (process sample_env None coordinates_gdf ''CSV'' None False False ''UTF-8'')))
      = build_summary coordinates_gdf (written_frame ''CSV'' coordinates_gdf)"
    using process_summary [OF eq pre] .
  moreover have "columns_output (build_summary coordinates_gdf
        (written_frame ''CSV'' coordinates_gdf)) = 2"
    by (simp add: build_summary_def written_frame_def set_column_def coordinates_gdf_def)
  moreover have "columns coordinates_gdf = [''latitude'', ''longitude'', ''geometry'']"
    by (simp add: coordinates_gdf_def)
  ultimately show ?thesis
    using ok pre geo by simp
qed

text \<open>
  On a dataset of which a row has a geometry, the same run stops at the write stage in the
  sample environment, before any report is made.
\<close>

lemma process_csv_with_geometry:
  "process sample_env None local_grid_gdf ''CSV'' None False False ''UTF-8'' = Inl WriteError"
  by (simp add: process_def Let_def split_def alloc_def empty_heap_def write_file_def csv_config
        sample_env_def reprojection_stage_def truthy_def set_column_geometry local_grid_gdf_def)



section \<open>Attribute normalizer: properties\<close>

text \<open>
  C2. The renaming step truncates a name to 10 characters for the shapefile driver and
  only afterwards tells equal names apart with a suffix, so two columns that agree on
  their first 10 characters leave the normalizer with a name of 12 characters.
\<close>

theorem normalize_shapefile_suffix_after_truncation:
  "attribute_normalize (\<lambda>name. name) census_gdf ''ESRI Shapefile'' True
     = Inr (census_gdf \<lparr> columns := [''population'', ''population_1'', ''geometry''] \<rparr>,
            \<lparr> columns_renamed = [(''population_2019'', ''population''),
                                 (''population_2020'', ''population_1'')],
              columns_dropped = [] \<rparr>)
   \<and> length ''population_1'' = 12"
  by code_simp


section \<open>Submission and quota: properties\<close>

lemma plan_limit_values:
  "plan_limit FREE = 5" "plan_limit STARTER = 100" "plan_limit PRO = 1000"
  "plan_limit ENTERPRISE = -1"
  by (simp_all add: plan_limit_def PLAN_LIMITS_def)

text \<open>
  C4. For a user with a subscription: the submission is refused with status 429 exactly
  when the limit of the plan is not -1 and the conversions used this month have reached
  it, so never on the enterprise plan; a refused submission, whatever the error, leaves
  the database and the queue as they were; a submission is accepted exactly when the
  quota is not exhausted, the identifier drawn for the job is new and the broker takes
  the task, and then a job with status pending is inserted under that identifier and the
  counter of the user is one higher.
\<close>

theorem submission_quota:
  assumes sub: "db_subscriptions st u = Some sub"
  shows "(fst (create_conversion_job new_id broker_up now payload u st) = Inl (HTTPException 429)
            \<longleftrightarrow> plan_limit (plan sub) \<noteq> -1
                \<and> plan_limit (plan sub) \<le> conversions_used_this_month sub)
       \<and> (plan sub = ENTERPRISE
            \<longrightarrow> fst (create_conversion_job new_id broker_up now payload u st)
                \<noteq> Inl (HTTPException 429))
       \<and> (isl (fst (create_conversion_job new_id broker_up now payload u st))
            \<longrightarrow> snd (create_conversion_job new_id broker_up now payload u st) = st)
       \<and> (\<not> isl (fst (create_conversion_job new_id broker_up now payload u st))
            \<longleftrightarrow> \<not> (plan_limit (plan sub) \<noteq> -1
                     \<and> plan_limit (plan sub) \<le> conversions_used_this_month sub)
                \<and> new_id \<notin> dom (db_jobs st) \<and> broker_up)
       \<and> (\<not> isl (fst (create_conversion_job new_id broker_up now payload u st))
            \<longrightarrow> new_id \<notin> dom (db_jobs st)
                \<and> (\<exists>job. db_jobs (snd (create_conversion_job new_id broker_up now payload u st))
                            = (db_jobs st)(new_id \<mapsto> job)
                          \<and> status job = PENDING \<and> user_id job = u \<and> job_id job = new_id)
                \<and> db_subscriptions (snd (create_conversion_job new_id broker_up now payload u st))
                    = (db_subscriptions st)
                        (u \<mapsto> sub \<lparr> conversions_used_this_month :=
                                      conversions_used_this_month sub + 1 \<rparr>))"
  using sub
  by (auto simp: create_conversion_job_def check_quota_def Let_def plan_limit_values)

theorem submission_quota_witness:
  "fst (create_conversion_job ''j2'' True 2000 sample_request ''alice'' sample_backend)
     = Inl (HTTPException 429)
   \<and> snd (create_conversion_job ''j2'' True 2000 sample_request ''alice'' sample_backend)
     = sample_backend
   \<and> \<not> isl (fst (create_conversion_job ''j2'' True 2000 sample_request ''bob'' sample_backend))
   \<and> map_option conversions_used_this_month
        (db_subscriptions (snd (create_conversion_job ''j2'' True 2000 sample_request ''bob''
           sample_backend)) ''bob'') = Some 3
   \<and> map_option status
        (db_jobs (snd (create_conversion_job ''j2'' True 2000 sample_request ''bob''
           sample_backend)) ''j2'') = Some PENDING"
proof -
  have a: "db_subscriptions sample_backend ''alice''
      = Some \<lparr> subscription_user_id = ''alice'', plan = FREE, conversions_used_this_month = 5 \<rparr>"
    by (simp add: sample_backend_def)
  have b: "db_subscriptions sample_backend ''bob''
      = Some \<lparr> subscription_user_id = ''bob'', plan = FREE, conversions_used_this_month = 2 \<rparr>"
    by (simp add: sample_backend_def)
  have fresh: "''j2'' \<notin> dom (db_jobs sample_backend)"
    by (simp add: sample_backend_def)
  note A = submission_quota [OF a, of "''j2''" True 2000 sample_request]
  note B = submission_quota [OF b, of "''j2''" True 2000 sample_request]
  have r1: "fst (create_conversion_job ''j2'' True 2000 sample_request ''alice'' sample_backend)
     = Inl (HTTPException 429)"
    using A [THEN conjunct1] by (simp add: plan_limit_values)
  then have r2: "snd (create_conversion_job ''j2'' True 2000 sample_request ''alice'' sample_backend)
     = sample_backend"
    using A [THEN conjunct2, THEN conjunct2, THEN conjunct1] by simp
  have r3: "\<not> isl (fst (create_conversion_job ''j2'' True 2000 sample_request ''bob'' sample_backend))"
    using B [THEN conjunct2, THEN conjunct2, THEN conjunct2, THEN conjunct1] fresh
    by (simp add: plan_limit_values)
  note C = B [THEN conjunct2, THEN conjunct2, THEN conjunct2, THEN conjunct2, rule_format, OF r3]
  have r4: "map_option conversions_used_this_month
        (db_subscriptions (snd (create_conversion_job ''j2'' True 2000 sample_request ''bob''
           sample_backend)) ''bob'') = Some 3"
    using C by simp
  have r5: "map_option status
        (db_jobs (snd (create_conversion_job ''j2'' True 2000 sample_request ''bob''
           sample_backend)) ''j2'') = Some PENDING"
    using C by auto
  show ?thesis
    using r1 r2 r3 r4 r5 by simp
qed

section \<open>Conversion worker: properties\<close>

text \<open>
  What the worker does with a failure. A delivery that fails with an exception other than
  the soft time limit marks the job failed with the message cut to 2000 characters. If the
  message contains \<open>Connection\<close>, so capitalised, or contains \<open>timeout\<close> in any letter
  case, the task then asks to be sent again after 10 seconds as long as fewer than 2
  retries have preceded, and raises the exception again otherwise. In every other case the
  task returns as failed. The soft time limit marks the job failed and is not retried.
\<close>

lemma convert_file_failure:
  assumes found: "db_jobs st jid = Some job"
  shows "((py_in ''Connection'' msg \<or> py_in ''timeout'' (py_lower msg)) \<and> retries < 2
            \<longrightarrow> fst (convert_file retries utcnow (Raised msg tb) jid st) = Retry 10)
       \<and> ((py_in ''Connection'' msg \<or> py_in ''timeout'' (py_lower msg)) \<and> 2 \<le> retries
            \<longrightarrow> fst (convert_file retries utcnow (Raised msg tb) jid st) = Reraised msg)
       \<and> (\<not> py_in ''Connection'' msg \<and> \<not> py_in ''timeout'' (py_lower msg)
            \<longrightarrow> fst (convert_file retries utcnow (Raised msg tb) jid st) = TaskFailed msg)
       \<and> fst (convert_file retries utcnow SoftTimeLimitExceeded jid st) = TaskTimeout
       \<and> map_option status (db_jobs (snd (convert_file retries utcnow (Raised msg tb) jid st)) jid)
           = Some FAILED
       \<and> map_option error_message
            (db_jobs (snd (convert_file retries utcnow (Raised msg tb) jid st)) jid)
           = Some (Some (take 2000 msg))
       \<and> map_option status
            (db_jobs (snd (convert_file retries utcnow SoftTimeLimitExceeded jid st)) jid)
           = Some FAILED"
  using found
  by (auto simp: convert_file_def Let_def is_transient_def retry_def MAX_RETRIES_def
        DEFAULT_RETRY_DELAY_def mark_failed_def)

text \<open>
  C5. The claim promises a retry for every failure whose message tells of a connection
  problem, and so do the comments of the worker (retry for transient errors) and of the
  task queue (retry on network errors). The test for it lowers the message before it looks
  for \<open>timeout\<close> but looks for \<open>Connection\<close> in the message as it is. So the first
  delivery of a task that fails with the message \<open>connection refused\<close>, which has the
  word in lower case, returns as failed with the job marked failed and is not sent again,
  while the same failure with the message \<open>Connection refused\<close> is sent again after 10
  seconds.
\<close>

theorem lowercase_connection_not_retried:
  "py_in ''connection'' (py_lower ''connection refused'')
   \<and> fst (convert_file 0 (\<lambda>n. 5000) (Raised ''connection refused'' []) ''j1'' sample_backend)
       = TaskFailed ''connection refused''
   \<and> map_option status
       (db_jobs (snd (convert_file 0 (\<lambda>n. 5000) (Raised ''connection refused'' []) ''j1''
                        sample_backend)) ''j1'') = Some FAILED
   \<and> fst (convert_file 0 (\<lambda>n. 5000) (Raised ''Connection refused'' []) ''j1'' sample_backend)
       = Retry 10"
proof -
  have j: "db_jobs sample_backend ''j1'' = Some sample_job"
    by (simp add: sample_backend_def)
  have a: "py_in ''connection'' (py_lower ''connection refused'')"
    by code_simp
  have b: "\<not> is_transient ''connection refused''"
    by code_simp
  have c: "is_transient ''Connection refused''"
    by code_simp
  show ?thesis
    using a b c j
    by (simp add: convert_file_def Let_def retry_def MAX_RETRIES_def DEFAULT_RETRY_DELAY_def
          mark_failed_def)
qed

section \<open>Artifact retrieval: properties\<close>

text \<open>
  C3, as the code has it. For a job identifier that parses: the answer is 404 when no job
  has the identifier and also when the job belongs to another user, since the job is
  looked up by identifier and owner at once; 403 is never returned; for a job of the
  user it is 400 when the status is not success, 404 when the output path is null, 410
  when the expiry is set and in the past; and a response is returned only when all of
  these checks pass, with the URL that the storage backend gives for the output path and
  a validity of 3600 seconds.
\<close>

theorem artifact_retrieval_checks:
  assumes parsed: "parse_uuid env job_text = Some jid"
  shows "(db_jobs st jid = None
            \<longrightarrow> get_download_url env job_text u st = Inl (HTTPException 404))
       \<and> (db_jobs st jid = Some job \<and> user_id job \<noteq> u
            \<longrightarrow> get_download_url env job_text u st = Inl (HTTPException 404))
       \<and> (db_jobs st jid = Some job \<and> user_id job = u \<and> status job \<noteq> SUCCESS
            \<longrightarrow> get_download_url env job_text u st = Inl (HTTPException 400))
       \<and> (db_jobs st jid = Some job \<and> user_id job = u \<and> status job = SUCCESS
            \<and> output_storage_path job = None
            \<longrightarrow> get_download_url env job_text u st = Inl (HTTPException 404))
       \<and> (db_jobs st jid = Some job \<and> user_id job = u \<and> status job = SUCCESS
            \<and> output_storage_path job = Some path \<and> path \<noteq> []
            \<and> download_expires_at job = Some t \<and> t < clock env 0
            \<longrightarrow> get_download_url env job_text u st = Inl (HTTPException 410))
       \<and> get_download_url env job_text u st \<noteq> Inl (HTTPException 403)
       \<and> (get_download_url env job_text u st = Inr resp
            \<longrightarrow> (\<exists>j p. db_jobs st jid = Some j \<and> user_id j = u \<and> status j = SUCCESS
                    \<and> output_storage_path j = Some p \<and> p \<noteq> []
                    \<and> (\<forall>t'. download_expires_at j = Some t' \<longrightarrow> clock env 0 \<le> t')
                    \<and> storage_get_url env p 3600 = Some (download_link resp)))"
  using parsed
  by (auto simp: get_download_url_def select_job_def Let_def split: option.splits if_splits)

theorem artifact_retrieval_checks_witness:
  "get_download_url sample_web_env ''j1'' ''alice'' sample_backend
     = Inr \<lparr> download_job_id = ''j1'',
             download_link = ''/api/v1/download/file?path=/outputs/communes.gpkg'',
             filename = ''communes_converted.gpkg'',
             expires_at = 90000,
             file_size_bytes = Some 2048 \<rparr>
   \<and> get_download_url sample_web_env ''j9'' ''alice'' sample_backend = Inl (HTTPException 404)"
proof -
  have p1: "parse_uuid sample_web_env ''j1'' = Some ''j1''"
    by (simp add: sample_web_env_def)
  have p9: "parse_uuid sample_web_env ''j9'' = Some ''j9''"
    by (simp add: sample_web_env_def)
  have none: "db_jobs sample_backend ''j9'' = None"
    by (simp add: sample_backend_def)
  have r9: "get_download_url sample_web_env ''j9'' ''alice'' sample_backend = Inl (HTTPException 404)"
    using artifact_retrieval_checks [OF p9, of sample_backend] none by blast
  have r1: "get_download_url sample_web_env ''j1'' ''alice'' sample_backend
     = Inr \<lparr> download_job_id = ''j1'',
             download_link = ''/api/v1/download/file?path=/outputs/communes.gpkg'',
             filename = ''communes_converted.gpkg'',
             expires_at = 90000,
             file_size_bytes = Some 2048 \<rparr>"
    by (simp add: get_download_url_def select_job_def sample_web_env_def sample_backend_def
          sample_job_def ext_map_def)
  show ?thesis
    using r1 r9 by simp
qed

text \<open>
  C3, counterexample. The claim as stated fails for a job that exists and belongs to
  another user: the answer is 404, not 403.
\<close>

theorem other_user_gets_404_counterexample:
  "db_jobs sample_backend ''j1'' = Some sample_job
   \<and> user_id sample_job = ''alice''
   \<and> get_download_url sample_web_env ''j1'' ''bob'' sample_backend = Inl (HTTPException 404)"
  by (simp add: get_download_url_def select_job_def sample_web_env_def sample_backend_def
        sample_job_def)


end
